theory Spec2Isabelle
  imports Complex_Main
begin

section \<open>Numbers, colours and the object store\<close>

text \<open>
  JavaScript numbers are modelled as real numbers: every arithmetic operation of the
  source is the exact real operation, and the rounding of IEEE doubles and of the
  \<^verbatim>\<open>Float32Array\<close> buffers is outside the model. The one place where the source
  inspects the non-finite values is the index argument of \<^verbatim>\<open>getSafeColor\<close>, so that
  argument has the type \<open>js_number\<close>, which keeps NaN and the two infinities apart from
  the finite values.
\<close>

datatype js_number = NaN | PosInfinity | NegInfinity | Finite real

fun isFinite :: "js_number \<Rightarrow> bool" where
  "isFinite (Finite x) = True"
| "isFinite NaN = False"
| "isFinite PosInfinity = False"
| "isFinite NegInfinity = False"

text \<open>
  A \<^verbatim>\<open>THREE.Color\<close> is a mutable object with the fields r, g and b. Objects live in a
  store: \<open>cells\<close> maps a reference to the object's current value and \<open>nextRef\<close> is the
  first reference not yet allocated. Only references below \<open>nextRef\<close> are ever handed out,
  and a JavaScript reference cannot dangle.
\<close>

datatype color = Color (r: real) (g: real) (b: real)

type_synonym ref = nat

text \<open>
  The state that one run of the generator threads through: the number of
  \<^verbatim>\<open>Math.random()\<close> draws consumed so far, the colour store, and the four
  \<^verbatim>\<open>Float32Array\<close> buffers of the particle set.
\<close>

record gen_state =
  draws :: nat
  cells :: "ref \<Rightarrow> color"
  nextRef :: ref
  initPos :: "real list"
  targetPos :: "real list"
  cols :: "real list"
  rands :: "real list"

text \<open>\<^verbatim>\<open>Math.random()\<close>: the source of draws \<open>rnd\<close> is the sequence of values the calls return.\<close>

definition random :: "(nat \<Rightarrow> real) \<Rightarrow> gen_state \<Rightarrow> real \<times> gen_state" where
  "random rnd s = (rnd (draws s), s\<lparr>draws := Suc (draws s)\<rparr>)"

text \<open>\<^verbatim>\<open>new THREE.Color(r, g, b)\<close> and \<^verbatim>\<open>new THREE.Color()\<close>, which is white.\<close>

definition newColor :: "color \<Rightarrow> gen_state \<Rightarrow> ref \<times> gen_state" where
  "newColor c s = (nextRef s, s\<lparr>cells := (cells s)(nextRef s := c), nextRef := Suc (nextRef s)\<rparr>)"

definition white :: color where
  "white = Color 1 1 1"

definition clone :: "ref \<Rightarrow> gen_state \<Rightarrow> ref \<times> gen_state" where
  "clone c s = newColor (cells s c) s"

text \<open>The in-place methods \<^verbatim>\<open>addScalar\<close>, \<^verbatim>\<open>multiplyScalar\<close> and \<^verbatim>\<open>lerp\<close>.\<close>

definition addScalar :: "ref \<Rightarrow> real \<Rightarrow> gen_state \<Rightarrow> gen_state" where
  "addScalar c k s =
     s\<lparr>cells := (cells s)(c := Color (r (cells s c) + k) (g (cells s c) + k) (b (cells s c) + k))\<rparr>"

definition multiplyScalar :: "ref \<Rightarrow> real \<Rightarrow> gen_state \<Rightarrow> gen_state" where
  "multiplyScalar c k s =
     s\<lparr>cells := (cells s)(c := Color (r (cells s c) * k) (g (cells s c) * k) (b (cells s c) * k))\<rparr>"

definition lerp :: "ref \<Rightarrow> ref \<Rightarrow> real \<Rightarrow> gen_state \<Rightarrow> gen_state" where
  "lerp c d alpha s =
     s\<lparr>cells := (cells s)(c := Color (r (cells s c) + (r (cells s d) - r (cells s c)) * alpha)
                                     (g (cells s c) + (g (cells s d) - g (cells s c)) * alpha)
                                     (b (cells s c) + (b (cells s d) - b (cells s c)) * alpha))\<rparr>"

text \<open>Reading an array element: \<^verbatim>\<open>undefined\<close> outside the array is \<open>None\<close>.\<close>

definition nth_opt :: "'a list \<Rightarrow> int \<Rightarrow> 'a option" where
  "nth_opt xs i = (if 0 \<le> i \<and> i < int (length xs) then Some (xs ! nat i) else None)"

section \<open>The palette sampler\<close>

text \<open>
  \<^verbatim>\<open>getSafeColor(colors, idx)\<close> of ParticleSystem.tsx. The palette is an array of colour
  objects (its type excludes \<^verbatim>\<open>null\<close>, the other case of the first guard). The result is
  a new object: white, or a clone of the selected entry.
\<close>

definition safeIndex :: "nat \<Rightarrow> js_number \<Rightarrow> int" where
  "safeIndex len idx =
     (let safeIndex = (if \<not> isFinite idx then 0 else (case idx of Finite x \<Rightarrow> x | _ \<Rightarrow> 0))
      in max 0 (min \<lfloor>safeIndex\<rfloor> (int len - 1)))"

definition getSafeColor :: "ref list \<Rightarrow> js_number \<Rightarrow> gen_state \<Rightarrow> ref \<times> gen_state" where
  "getSafeColor colors idx s =
     (if length colors = 0 then newColor white s
      else (case nth_opt colors (safeIndex (length colors) idx) of
              None \<Rightarrow> newColor white s
            | Some color \<Rightarrow> clone color s))"

text \<open>The index the specification describes: the floor of the index, clamped to the palette.\<close>

definition clamp :: "int \<Rightarrow> int \<Rightarrow> int \<Rightarrow> int" where
  "clamp x lo hi = (if x < lo then lo else if hi < x then hi else x)"

definition spec_index :: "nat \<Rightarrow> js_number \<Rightarrow> nat" where
  "spec_index len idx =
     (case idx of Finite x \<Rightarrow> nat (clamp \<lfloor>x\<rfloor> 0 (int len - 1)) | _ \<Rightarrow> 0)"

section \<open>The body catalog\<close>

text \<open>
  \<^verbatim>\<open>CelestialBodyConfig\<close> is declared in a file that is not part of the sources at hand;
  the record follows the fields of the entries of \<^verbatim>\<open>CELESTIAL_BODIES\<close> in data.ts, with
  the optional \<^verbatim>\<open>ringColors\<close> as an option.
\<close>

datatype body_type = Star | Planet | Moon

record CelestialBodyConfig =
  name :: string
  type :: body_type
  radius :: real
  colors :: "string list"
  hasRings :: bool
  ringColors :: "string list option"
  textureType :: string

definition CELESTIAL_BODIES :: "CelestialBodyConfig list" where
  "CELESTIAL_BODIES =
    [\<lparr>name = ''Sun'', type = Star, radius = 4.0,
      colors = [''#FFF700'', ''#FF8C00'', ''#FF4500'', ''#8B0000''],
      hasRings = False, ringColors = None, textureType = ''noise''\<rparr>,
     \<lparr>name = ''Mercury'', type = Planet, radius = 1.5,
      colors = [''#A5A5A5'', ''#8C8C8C'', ''#686868'', ''#4A4A4A''],
      hasRings = False, ringColors = None, textureType = ''noise''\<rparr>,
     \<lparr>name = ''Venus'', type = Planet, radius = 2.8,
      colors = [''#F5DEB3'', ''#E6C288'', ''#D2B48C'', ''#FFFACD''],
      hasRings = False, ringColors = None, textureType = ''noise''\<rparr>,
     \<lparr>name = ''Earth'', type = Planet, radius = 3.0,
      colors = [''#020614'', ''#0a2452'', ''#1c6ba0'', ''#0f2b0f'', ''#3a5f28'', ''#827054'',
                ''#ffffff''],
      hasRings = False, ringColors = None, textureType = ''noise''\<rparr>,
     \<lparr>name = ''Moon'', type = Moon, radius = 1.0,
      colors = [''#D3D3D3'', ''#A9A9A9'', ''#808080'', ''#F5F5F5''],
      hasRings = False, ringColors = None, textureType = ''noise''\<rparr>,
     \<lparr>name = ''Mars'', type = Planet, radius = 2.2,
      colors = [''#8B0000'', ''#B22222'', ''#CD5C5C'', ''#E9967A''],
      hasRings = False, ringColors = None, textureType = ''noise''\<rparr>,
     \<lparr>name = ''Jupiter'', type = Planet, radius = 4.5,
      colors = [''#8B4513'', ''#D2691E'', ''#F4A460'', ''#FFE4B5'', ''#A0522D''],
      hasRings = False, ringColors = None, textureType = ''banded''\<rparr>,
     \<lparr>name = ''Saturn'', type = Planet, radius = 3.8,
      colors = [''#D8C398'', ''#C7B283'', ''#BDB76B'', ''#8B7355''],
      hasRings = True, ringColors = Some [''#C0C0C0'', ''#D2B48C'', ''#8B4513''],
      textureType = ''banded''\<rparr>,
     \<lparr>name = ''Uranus'', type = Planet, radius = 3.2,
      colors = [''#E0FFFF'', ''#AFEEEE'', ''#7FFFD4'', ''#40E0D0''],
      hasRings = True, ringColors = Some [''#E0FFFF'', ''#AFEEEE''],
      textureType = ''solid''\<rparr>,
     \<lparr>name = ''Neptune'', type = Planet, radius = 3.2,
      colors = [''#000080'', ''#0000CD'', ''#191970'', ''#4169E1''],
      hasRings = False, ringColors = None, textureType = ''noise''\<rparr>,
     \<lparr>name = ''Pluto'', type = Planet, radius = 0.8,
      colors = [''#F5DEB3'', ''#D2B48C'', ''#C0C0C0'', ''#FFF8DC''],
      hasRings = False, ringColors = None, textureType = ''noise''\<rparr>]"

section \<open>The body selection policy\<close>

text \<open>
  \<^verbatim>\<open>changeCelestialBody\<close> of the App component: a \<^verbatim>\<open>do ... while\<close> loop that draws an index
  and repeats while the drawn body has the current body's name. The loop has no other exit,
  so the model is a partial function: \<open>None\<close> is the loop that never ends. Reading
  \<^verbatim>\<open>newBody.name\<close> of an \<^verbatim>\<open>undefined\<close> array element throws a TypeError. The result is
  the new current body and the number of draws consumed. \<open>selectNext\<close> is the loop over
  an arbitrary catalog; the source runs it on \<open>CELESTIAL_BODIES\<close>.
\<close>

datatype error = TypeError

definition drawIndex :: "'a list \<Rightarrow> (nat \<Rightarrow> real) \<Rightarrow> nat \<Rightarrow> int" where
  "drawIndex catalog rnd k = \<lfloor>rnd k * real (length catalog)\<rfloor>"

partial_function (option) selectNext ::
  "CelestialBodyConfig list \<Rightarrow> (nat \<Rightarrow> real) \<Rightarrow> CelestialBodyConfig \<Rightarrow> nat
     \<Rightarrow> (error + CelestialBodyConfig \<times> nat) option" where
  "selectNext catalog rnd currentBody k =
     (let idx = drawIndex catalog rnd k in
      case nth_opt catalog idx of
        None \<Rightarrow> Some (Inl TypeError)
      | Some newBody \<Rightarrow>
          if name newBody = name currentBody
          then selectNext catalog rnd currentBody (Suc k)
          else Some (Inr (newBody, Suc k)))"

definition changeCelestialBody ::
  "(nat \<Rightarrow> real) \<Rightarrow> CelestialBodyConfig \<Rightarrow> nat \<Rightarrow> (error + CelestialBodyConfig \<times> nat) option" where
  "changeCelestialBody rnd currentBody k = selectNext CELESTIAL_BODIES rnd currentBody k"

section \<open>The particle generator\<close>

text \<open>
  The particle count of the component, and the value the generator's \<^verbatim>\<open>useMemo\<close> returns:
  the four buffers (\<open>colors'\<close> is the source's \<^verbatim>\<open>colors\<close>).
\<close>

definition count :: nat where
  "count = 64000"

record particle_set =
  initialPositions :: "real list"
  targetPositions :: "real list"
  colors' :: "real list"
  randoms :: "real list"

text \<open>
  The library functions the generator uses. \<^verbatim>\<open>Math.atan2\<close>, the remainder operator
  \<^verbatim>\<open>%\<close> (the sign of the result is the sign of the dividend) and \<^verbatim>\<open>Math.cbrt\<close>, on
  real numbers; \<^verbatim>\<open>Math.acos\<close> is \<open>arccos\<close>. The radius of a body is positive, so the
  divisions of the generator are by non-zero numbers.
\<close>

definition atan2 :: "real \<Rightarrow> real \<Rightarrow> real" where
  "atan2 y x =
     (if 0 < x then arctan (y / x)
      else if x < 0 then (if 0 \<le> y then arctan (y / x) + pi else arctan (y / x) - pi)
      else if 0 < y then pi / 2
      else if y < 0 then - pi / 2
      else 0)"

definition js_rem :: "real \<Rightarrow> real \<Rightarrow> real" where
  "js_rem x y = x - y * of_int (if x / y < 0 then \<lceil>x / y\<rceil> else \<lfloor>x / y\<rfloor>)"

definition cbrt :: "real \<Rightarrow> real" where
  "cbrt x = root 3 x"

text \<open>The pseudo-noise function.\<close>

definition noise :: "real \<Rightarrow> real \<Rightarrow> real \<Rightarrow> real" where
  "noise x y z =
     sin (x * 12.0) * cos (y * 12.0) * sin (z * 12.0)
     + sin (x * 4.0) * sin (y * 4.0) * cos (z * 4.0) * 0.5"

text \<open>
  \<^verbatim>\<open>setColor(i, color)\<close> writes the three fields of a colour object into the colour buffer;
  \<open>setTarget\<close> is the three assignments \<^verbatim>\<open>targetPos[i * 3] = tx\<close>, ... that end every
  loop body. A write outside a typed array is ignored, as \<open>list_update\<close> does.
\<close>

definition setColor :: "nat \<Rightarrow> ref \<Rightarrow> gen_state \<Rightarrow> gen_state" where
  "setColor i color s =
     s\<lparr>cols := (cols s)[i * 3 := r (cells s color), i * 3 + 1 := g (cells s color),
                          i * 3 + 2 := b (cells s color)]\<rparr>"

definition setTarget :: "nat \<Rightarrow> real \<Rightarrow> real \<Rightarrow> real \<Rightarrow> gen_state \<Rightarrow> gen_state" where
  "setTarget i tx ty tz s =
     s\<lparr>targetPos := (targetPos s)[i * 3 := tx, i * 3 + 1 := ty, i * 3 + 2 := tz]\<rparr>"

text \<open>
  \<^verbatim>\<open>strings.map(c => new THREE.Color(c))\<close>: one new object for each colour string. Parsing
  a colour string is the library's; \<open>mkColor\<close> is the value it gives a string.
  \<open>newColorFrom\<close> is \<^verbatim>\<open>new THREE.Color(x)\<close> for an array element \<open>x\<close>, which copies a
  colour and is white for \<^verbatim>\<open>undefined\<close>.
\<close>

fun newColors :: "color list \<Rightarrow> gen_state \<Rightarrow> ref list \<times> gen_state" where
  "newColors [] s = ([], s)"
| "newColors (c # cs) s =
     (let (x, s) = newColor c s; (xs, s) = newColors cs s in (x # xs, s))"

definition newColorFrom :: "ref option \<Rightarrow> gen_state \<Rightarrow> ref \<times> gen_state" where
  "newColorFrom x s = (case x of None \<Rightarrow> newColor white s | Some c \<Rightarrow> newColor (cells s c) s)"

subsection \<open>Single planet mode\<close>

definition ringParticleCount :: "CelestialBodyConfig \<Rightarrow> nat" where
  "ringParticleCount bodyConfig = (if hasRings bodyConfig then nat \<lfloor>real count * 0.35\<rfloor> else 0)"

definition bodyParticleCount :: "CelestialBodyConfig \<Rightarrow> nat" where
  "bodyParticleCount bodyConfig = count - ringParticleCount bodyConfig"

text \<open>The ring branch of the loop body, for the particle \<open>i\<close>.\<close>

definition ringParticle ::
  "(nat \<Rightarrow> real) \<Rightarrow> CelestialBodyConfig \<Rightarrow> ref list \<Rightarrow> nat \<Rightarrow> gen_state \<Rightarrow> gen_state" where
  "ringParticle rnd bodyConfig ringPalette i s =
     (let (color, s) = newColor white s;
          inner = radius bodyConfig * 1.3;
          outer = radius bodyConfig * 2.2;
          (u, s) = random rnd s;
          rr = inner + u * (outer - inner);
          (u, s) = random rnd s;
          theta = u * pi * 2;
          tx = rr * cos theta;
          tz = rr * sin theta;
          (u, s) = random rnd s;
          ty = (u - 0.5) * 0.05;
          normalizedR = (rr - inner) / (outer - inner);
          ringLen = length ringPalette;
          cIdx = normalizedR * real ringLen * 3;
          (color, s) = getSafeColor ringPalette
                         (Finite (if ringLen > 0 then js_rem cIdx (real ringLen) else 0)) s;
          s = (if normalizedR > 0.6 \<and> normalizedR < 0.65 then multiplyScalar color 0.2 s else s)
      in setColor i color (setTarget i tx ty tz s))"

text \<open>
  The colour and the final position of a body particle of the Earth: the biome decision
  tree and the cloud layer.
\<close>

definition earthSurface ::
  "(nat \<Rightarrow> real) \<Rightarrow> ref list \<Rightarrow> real \<Rightarrow> real \<Rightarrow> real \<Rightarrow> real \<Rightarrow> gen_state
     \<Rightarrow> (real \<times> real \<times> real \<times> ref) \<times> gen_state" where
  "earthSurface rnd bodyColors rr tx ty tz s =
     (let lat = ty / rr;
          absLat = \<bar>lat\<bar>;
          nCont = noise (tx * 1.0) (ty * 1.0) (tz * 1.0);
          nDet = noise (tx * 5) (ty * 5) (tz * 5);
          nMoist = noise (tx * 2.0 + 100) (ty * 2.0 + 100) (tz * 2.0 + 100);
          h = nCont + nDet * 0.2;
          nCloud = noise (tx * 3.5 + 50) (ty * 3.5) (tz * 3.5 + 50);
          (color, s) =
            (if h < 0.05 then
               (let depth = h - 0.05 in
                if depth > - 0.15 then getSafeColor bodyColors (Finite 2) s
                else if depth > - 0.45 then getSafeColor bodyColors (Finite 1) s
                else getSafeColor bodyColors (Finite 0) s)
             else if absLat > 0.85 then getSafeColor bodyColors (Finite 6) s
             else
               (let isHigh = (nDet > 0.4 \<or> h > 0.6) in
                if isHigh then getSafeColor bodyColors (Finite 5) s
                else if nMoist > 0.1 then
                  (if nMoist > 0.5 then getSafeColor bodyColors (Finite 3) s
                   else getSafeColor bodyColors (Finite 4) s)
                else if nMoist < - 0.3 then getSafeColor bodyColors (Finite 5) s
                else
                  (let (color, s) = getSafeColor bodyColors (Finite 4) s;
                       (other, s) = newColorFrom (nth_opt bodyColors 5) s
                   in (color, lerp color other 0.5 s))))
      in if nCloud > 0.55 then
           (let (u, s) = random rnd s in
            if u > 0.1 then
              (let (color, s) = getSafeColor bodyColors (Finite 6) s;
                   cloudHeight = 0.04
               in ((tx * (1 + cloudHeight), ty * (1 + cloudHeight), tz * (1 + cloudHeight), color), s))
            else ((tx, ty, tz, color), s))
         else ((tx, ty, tz, color), s))"

text \<open>The body branch of the loop body, for the particle \<open>i\<close>.\<close>

definition bodyParticle ::
  "(nat \<Rightarrow> real) \<Rightarrow> CelestialBodyConfig \<Rightarrow> ref list \<Rightarrow> nat \<Rightarrow> gen_state \<Rightarrow> gen_state" where
  "bodyParticle rnd bodyConfig bodyColors i s =
     (let (color, s) = newColor white s;
          rr = radius bodyConfig;
          (u, s) = random rnd s;
          theta = u * pi * 2;
          (u, s) = random rnd s;
          phi = arccos (2 * u - 1);
          tx = rr * sin phi * cos theta;
          ty = rr * cos phi;
          tz = rr * sin phi * sin theta;
          nY = (ty / rr + 1) / 2;
          nX = (atan2 tz tx / (2 * pi)) + 0.5;
          ((tx, ty, tz, color), s) =
            (if name bodyConfig = ''Earth'' then earthSurface rnd bodyColors rr tx ty tz s
             else if name bodyConfig = ''Jupiter'' then
               (let bandFreq = 15;
                    turbulence = sin (nX * 10) * 0.05;
                    bandVal = cos ((nY + turbulence) * bandFreq * pi);
                    colorIdx = ((bandVal + 1) / 2) * real (length bodyColors);
                    (color, s) = getSafeColor bodyColors (Finite colorIdx) s
                in ((tx, ty, tz, color), s))
             else if name bodyConfig = ''Saturn'' then
               (let bandVal = cos (nY * 20 * pi);
                    colorIdx = ((bandVal + 1) / 2) * real (length bodyColors);
                    (color, s) = getSafeColor bodyColors (Finite colorIdx) s
                in ((tx, ty, tz, color), s))
             else if name bodyConfig = ''Mars'' then
               (let n = noise (tx * 2) (ty * 2) (tz * 2);
                    normalizedN = max 0 (min 1 ((n + 1.5) / 3));
                    colorIdx = normalizedN * real (length bodyColors);
                    (color, s) = getSafeColor bodyColors (Finite colorIdx) s
                in ((tx, ty, tz, color), s))
             else
               (let n = noise tx ty tz;
                    normalizedN = max 0 (min 1 ((n + 1.5) / 3));
                    colorIdx = normalizedN * real (length bodyColors);
                    (color, s) = getSafeColor bodyColors (Finite colorIdx) s
                in ((tx, ty, tz, color), s)))
      in setColor i color (setTarget i tx ty tz s))"

text \<open>The loop over all particles, with the two palettes already built.\<close>

definition singlePlanetParticle ::
  "(nat \<Rightarrow> real) \<Rightarrow> CelestialBodyConfig \<Rightarrow> ref list \<Rightarrow> ref list \<Rightarrow> nat \<Rightarrow> gen_state \<Rightarrow> gen_state" where
  "singlePlanetParticle rnd bodyConfig bodyColors ringPalette i s =
     (let isRing = (i \<ge> bodyParticleCount bodyConfig) in
      if isRing \<and> hasRings bodyConfig then ringParticle rnd bodyConfig ringPalette i s
      else bodyParticle rnd bodyConfig bodyColors i s)"

definition singlePlanetLoop ::
  "(nat \<Rightarrow> real) \<Rightarrow> CelestialBodyConfig \<Rightarrow> ref list \<Rightarrow> ref list \<Rightarrow> gen_state \<Rightarrow> gen_state" where
  "singlePlanetLoop rnd bodyConfig bodyColors ringPalette s =
     fold (singlePlanetParticle rnd bodyConfig bodyColors ringPalette) [0..<count] s"

text \<open>The two palettes of a descriptor: the colour strings as new colour objects.\<close>

definition newPalettes ::
  "(string \<Rightarrow> color) \<Rightarrow> CelestialBodyConfig \<Rightarrow> gen_state \<Rightarrow> (ref list \<times> ref list) \<times> gen_state" where
  "newPalettes mkColor bodyConfig s =
     (let (bodyColors, s) = newColors (map mkColor (colors bodyConfig)) s;
          (ringPalette, s) = (case ringColors bodyConfig of
                                Some cs \<Rightarrow> newColors (map mkColor cs) s
                              | None \<Rightarrow> ([], s))
      in ((bodyColors, ringPalette), s))"

definition singlePlanetMode ::
  "(string \<Rightarrow> color) \<Rightarrow> (nat \<Rightarrow> real) \<Rightarrow> CelestialBodyConfig \<Rightarrow> gen_state \<Rightarrow> gen_state" where
  "singlePlanetMode mkColor rnd bodyConfig s =
     (let ((bodyColors, ringPalette), s) = newPalettes mkColor bodyConfig s
      in singlePlanetLoop rnd bodyConfig bodyColors ringPalette s)"

subsection \<open>The solar system, shown for the Sun\<close>

text \<open>
  Every loop of this mode writes at the running index \<^verbatim>\<open>currentIdx\<close>, which is carried
  with the state.
\<close>

definition sunParticle ::
  "(nat \<Rightarrow> real) \<Rightarrow> ref list \<Rightarrow> nat \<Rightarrow> nat \<times> gen_state \<Rightarrow> nat \<times> gen_state" where
  "sunParticle rnd sunColors i cs =
     (case cs of (currentIdx, s) \<Rightarrow>
      let rr = 3.5;
          (u, s) = random rnd s;
          theta = u * pi * 2;
          (u, s) = random rnd s;
          phi = arccos (2 * u - 1);
          tx = rr * sin phi * cos theta;
          ty = rr * cos phi;
          tz = rr * sin phi * sin theta;
          n = noise tx ty tz;
          normN = (n + 1.5) / 3;
          cIdx = normN * real (length sunColors);
          (color, s) = getSafeColor sunColors (Finite cIdx) s;
          (u, s) = random rnd s;
          s = (if u > 0.7 then addScalar color 0.2 s else s);
          s = setTarget currentIdx tx ty tz s;
          s = setColor currentIdx color s
      in (currentIdx + 1, s))"

definition orbitParticle ::
  "(nat \<Rightarrow> real) \<Rightarrow> ref \<Rightarrow> real \<Rightarrow> nat \<Rightarrow> nat \<Rightarrow> nat \<times> gen_state \<Rightarrow> nat \<times> gen_state" where
  "orbitParticle rnd orbitColor rr particlesInRing j cs =
     (case cs of (currentIdx, s) \<Rightarrow>
      let theta = (real j / real particlesInRing) * pi * 2;
          (u, s) = random rnd s;
          jitter = (u - 0.5) * 0.1;
          (u, s) = random rnd s;
          s = setTarget currentIdx ((rr + jitter) * cos theta) ((u - 0.5) * 0.05)
                ((rr + jitter) * sin theta) s;
          (u, s) = random rnd s;
          shade = 0.3 + u * 0.5;
          (c, s) = clone orbitColor s;
          s = multiplyScalar c shade s;
          s = setColor currentIdx c s
      in (currentIdx + 1, s))"

definition orbitRing ::
  "(nat \<Rightarrow> real) \<Rightarrow> ref \<Rightarrow> real list \<Rightarrow> nat \<Rightarrow> nat \<Rightarrow> nat \<times> gen_state \<Rightarrow> nat \<times> gen_state" where
  "orbitRing rnd orbitColor radii orbitCount rIdx cs =
     (let rr = radii ! rIdx;
          particlesInRing = nat \<lfloor>real orbitCount / real (length radii)\<rfloor>
      in fold (orbitParticle rnd orbitColor rr particlesInRing) [0..<particlesInRing] cs)"

definition asteroidParticle ::
  "(nat \<Rightarrow> real) \<Rightarrow> ref \<Rightarrow> nat \<Rightarrow> nat \<times> gen_state \<Rightarrow> nat \<times> gen_state" where
  "asteroidParticle rnd asteroidColor i cs =
     (case cs of (currentIdx, s) \<Rightarrow>
      let rBase = 16;
          rWidth = 3.0;
          (u, s) = random rnd s;
          rr = rBase + (u - 0.5) * rWidth;
          (u, s) = random rnd s;
          theta = u * pi * 2;
          (u, s) = random rnd s;
          s = setTarget currentIdx (rr * cos theta) ((u - 0.5) * 0.8) (rr * sin theta) s;
          (c, s) = clone asteroidColor s;
          (u, s) = random rnd s;
          s = multiplyScalar c (0.5 + u * 0.5) s;
          s = setColor currentIdx c s
      in (currentIdx + 1, s))"

text \<open>One particle of a planet of the solar system, the \<open>k\<close>-th of that planet.\<close>

definition planetParticle ::
  "(nat \<Rightarrow> real) \<Rightarrow> CelestialBodyConfig \<Rightarrow> ref list \<Rightarrow> ref list \<Rightarrow> real \<Rightarrow> real \<Rightarrow> nat
     \<Rightarrow> nat \<Rightarrow> nat \<times> gen_state \<Rightarrow> nat \<times> gen_state" where
  "planetParticle rnd planet pColors pRingColors cx cz particlesPerPlanet k cs =
     (case cs of (currentIdx, s) \<Rightarrow>
      let isRing = (hasRings planet \<and> real k > real particlesPerPlanet * 0.7);
          (col, s) = newColor white s;
          ((px, py, pz, col), s) =
            (if isRing then
               (let rInner = radius planet * 0.15 * 1.4;
                    rOuter = radius planet * 0.15 * 2.2;
                    (u, s) = random rnd s;
                    rRing = rInner + u * (rOuter - rInner);
                    (u, s) = random rnd s;
                    thetaRing = u * pi * 2;
                    px = cx + rRing * cos thetaRing;
                    pz = cz + rRing * sin thetaRing;
                    (u, s) = random rnd s;
                    py = (u - 0.5) * 0.05;
                    (u, s) = random rnd s;
                    cIdx = \<lfloor>u * real (length pRingColors)\<rfloor>;
                    (col, s) = getSafeColor pRingColors (Finite (of_int cIdx)) s
                in ((px, py, pz, col), s))
             else
               (let pr = radius planet * 0.15;
                    (u, s) = random rnd s;
                    theta = u * pi * 2;
                    (u, s) = random rnd s;
                    phi = arccos (2 * u - 1);
                    px = cx + pr * sin phi * cos theta;
                    py = pr * cos phi;
                    pz = cz + pr * sin phi * sin theta;
                    n = noise px py pz;
                    cIdx = ((n + 1.5) / 3) * real (length pColors);
                    (col, s) = getSafeColor pColors (Finite cIdx) s
                in ((px, py, pz, col), s)));
          s = setTarget currentIdx px py pz s;
          s = setColor currentIdx col s
      in (currentIdx + 1, s))"

text \<open>A \<^verbatim>\<open>for\<close> loop that leaves at \<^verbatim>\<open>break\<close> once the running index has reached the count.\<close>

fun forUntilFull ::
  "(nat \<Rightarrow> nat \<times> gen_state \<Rightarrow> nat \<times> gen_state) \<Rightarrow> nat list \<Rightarrow> nat \<times> gen_state
     \<Rightarrow> nat \<times> gen_state" where
  "forUntilFull body [] cs = cs"
| "forUntilFull body (k # ks) cs =
     (if fst cs \<ge> count then cs else forUntilFull body ks (body k cs))"

definition planetParticles ::
  "(string \<Rightarrow> color) \<Rightarrow> (nat \<Rightarrow> real) \<Rightarrow> CelestialBodyConfig list \<Rightarrow> real list \<Rightarrow> nat \<Rightarrow> nat
     \<Rightarrow> nat \<times> gen_state \<Rightarrow> nat \<times> gen_state" where
  "planetParticles mkColor rnd planetList radii particlesPerPlanet p cs =
     (case cs of (currentIdx, s) \<Rightarrow>
      let planet = planetList ! p;
          orbitR = radii ! (p mod length radii);
          planetAngle = js_rem (real p * 2.5) (pi * 2);
          cx = orbitR * cos planetAngle;
          cz = orbitR * sin planetAngle;
          ((pColors, pRingColors), s) = newPalettes mkColor planet s
      in forUntilFull (planetParticle rnd planet pColors pRingColors cx cz particlesPerPlanet)
           [0..<particlesPerPlanet] (currentIdx, s))"

definition solarSystemLoops ::
  "(string \<Rightarrow> color) \<Rightarrow> (nat \<Rightarrow> real) \<Rightarrow> ref list \<Rightarrow> ref \<Rightarrow> ref \<Rightarrow> gen_state \<Rightarrow> gen_state" where
  "solarSystemLoops mkColor rnd sunColors orbitColor asteroidColor s =
     (let sunCount = 20000;
          orbitCount = 9000;
          asteroidCount = 8000;
          radii = [6, 8, 10, 11, 14, 20, 26, 32, 38, 44];
          planetList = filter (\<lambda>b. name b \<noteq> ''Sun'') CELESTIAL_BODIES;
          cs = (0, s);
          cs = fold (sunParticle rnd sunColors) [0..<sunCount] cs;
          cs = fold (orbitRing rnd orbitColor radii orbitCount) [0..<length radii] cs;
          cs = fold (asteroidParticle rnd asteroidColor) [0..<asteroidCount] cs;
          particlesPerPlanet = nat \<lfloor>real (count - fst cs) / real (length planetList)\<rfloor>;
          cs = fold (planetParticles mkColor rnd planetList radii particlesPerPlanet)
                 [0..<length planetList] cs
      in fold (\<lambda>currentIdx. setTarget currentIdx 0 0 0) [fst cs..<count] (snd cs))"

definition solarSystemMode ::
  "(string \<Rightarrow> color) \<Rightarrow> (nat \<Rightarrow> real) \<Rightarrow> CelestialBodyConfig \<Rightarrow> gen_state \<Rightarrow> gen_state" where
  "solarSystemMode mkColor rnd bodyConfig s =
     (let (sunColors, s) = newColors (map mkColor (colors bodyConfig)) s;
          (orbitColor, s) = newColor (Color 0.2 0.4 0.8) s;
          (asteroidColor, s) = newColor (Color 0.5 0.5 0.5) s
      in solarSystemLoops mkColor rnd sunColors orbitColor asteroidColor s)"

subsection \<open>The origin cloud, the seeds and the whole generation\<close>

definition explosionParticle :: "(nat \<Rightarrow> real) \<Rightarrow> nat \<Rightarrow> gen_state \<Rightarrow> gen_state" where
  "explosionParticle rnd i s =
     (let i3 = i * 3;
          spread = 50;
          (u, s) = random rnd s;
          spreadR = spread * cbrt u;
          (u, s) = random rnd s;
          spreadTheta = u * pi * 2;
          (u, s) = random rnd s;
          spreadPhi = arccos (2 * u - 1);
          s = s\<lparr>initPos := (initPos s)[i3 := spreadR * sin spreadPhi * cos spreadTheta,
                                       i3 + 1 := spreadR * sin spreadPhi * sin spreadTheta,
                                       i3 + 2 := spreadR * cos spreadPhi]\<rparr>;
          (u1, s) = random rnd s;
          (u2, s) = random rnd s;
          (u3, s) = random rnd s
      in s\<lparr>rands := (rands s)[i3 := u1, i3 + 1 := u2, i3 + 2 := u3]\<rparr>)"

text \<open>
  The body of the generator's \<^verbatim>\<open>useMemo\<close>: four new buffers of \<open>count * 3\<close> zeros, the
  target cloud and the colours by the mode of the body, then the origin cloud and the
  seeds. The draws and the colour objects of earlier runs stay behind in the state.
\<close>

definition freshBuffers :: "gen_state \<Rightarrow> gen_state" where
  "freshBuffers s = s\<lparr>initPos := replicate (count * 3) 0, targetPos := replicate (count * 3) 0,
                       cols := replicate (count * 3) 0, rands := replicate (count * 3) 0\<rparr>"

definition bodyShape ::
  "(string \<Rightarrow> color) \<Rightarrow> (nat \<Rightarrow> real) \<Rightarrow> CelestialBodyConfig \<Rightarrow> gen_state \<Rightarrow> gen_state" where
  "bodyShape mkColor rnd bodyConfig s =
     (let s = freshBuffers s
      in if name bodyConfig = ''Sun'' then solarSystemMode mkColor rnd bodyConfig s
         else singlePlanetMode mkColor rnd bodyConfig s)"

definition generate ::
  "(string \<Rightarrow> color) \<Rightarrow> (nat \<Rightarrow> real) \<Rightarrow> CelestialBodyConfig \<Rightarrow> gen_state \<Rightarrow> gen_state" where
  "generate mkColor rnd bodyConfig s =
     fold (explosionParticle rnd) [0..<count] (bodyShape mkColor rnd bodyConfig s)"

definition particleSet :: "gen_state \<Rightarrow> particle_set" where
  "particleSet s = \<lparr>initialPositions = initPos s, targetPositions = targetPos s,
                    colors' = cols s, randoms = rands s\<rparr>"

text \<open>
  \<^verbatim>\<open>useMemo(..., [bodyConfig])\<close> across renders: the memo holds the descriptor of the last
  run and its particle set; a render with another descriptor runs the generator again. (React
  compares the dependency by identity; the descriptors the App passes are the catalog's
  objects, so a different descriptor is a different value.)
\<close>

definition useMemo ::
  "(string \<Rightarrow> color) \<Rightarrow> (nat \<Rightarrow> real) \<Rightarrow> CelestialBodyConfig
     \<Rightarrow> (CelestialBodyConfig \<times> particle_set) option \<times> gen_state
     \<Rightarrow> (CelestialBodyConfig \<times> particle_set) option \<times> gen_state" where
  "useMemo mkColor rnd bodyConfig ms =
     (case ms of (memo, s) \<Rightarrow>
        (case memo of
           Some (deps, value) \<Rightarrow>
             if deps = bodyConfig then (memo, s)
             else (let s = generate mkColor rnd bodyConfig s in (Some (bodyConfig, particleSet s), s))
         | None \<Rightarrow>
             (let s = generate mkColor rnd bodyConfig s in (Some (bodyConfig, particleSet s), s))))"

text \<open>The state before the first render: no draw made, no object allocated, no buffer.\<close>

definition initialState :: gen_state where
  "initialState = \<lparr>draws = 0, cells = (\<lambda>x. white), nextRef = 0,
                    initPos = [], targetPos = [], cols = [], rands = []\<rparr>"

section \<open>The animation driver\<close>

text \<open>The oscillation intensity of \<^verbatim>\<open>useFrame\<close>.\<close>

definition noiseIntensity :: "body_type \<Rightarrow> real \<Rightarrow> real" where
  "noiseIntensity ty expansion =
     expansion * 0.8 + (if ty = Star \<and> expansion < 0.1 then 0.05 else 0.02)"

text \<open>
  The fields of the \<^verbatim>\<open>THREE.Points\<close> object that \<^verbatim>\<open>useFrame\<close> updates: the array of the
  position attribute and the two rotation angles.
\<close>

record points =
  position_array :: "real list"
  rotation_x :: real
  rotation_y :: real

definition lerpSpeed :: real where
  "lerpSpeed = 0.08"

text \<open>The body of the loop over the particles in \<^verbatim>\<open>useFrame\<close>, for the particle \<open>i\<close>.\<close>

definition frameParticle ::
  "CelestialBodyConfig \<Rightarrow> real \<Rightarrow> particle_set \<Rightarrow> real \<Rightarrow> nat \<Rightarrow> real list \<Rightarrow> real list" where
  "frameParticle bodyConfig expansion ps time i positions =
     (let i3 = i * 3;
          tX = expansion * initialPositions ps ! i3 + (1 - expansion) * targetPositions ps ! i3;
          tY = expansion * initialPositions ps ! (i3 + 1)
                 + (1 - expansion) * targetPositions ps ! (i3 + 1);
          tZ = expansion * initialPositions ps ! (i3 + 2)
                 + (1 - expansion) * targetPositions ps ! (i3 + 2);
          intensity = noiseIntensity (type bodyConfig) expansion;
          nx = sin (time * 0.5 + randoms ps ! i3 * 100) * intensity * 0.2;
          ny = cos (time * 0.3 + randoms ps ! (i3 + 1) * 100) * intensity * 0.2;
          nz = sin (time * 0.5 + randoms ps ! (i3 + 2) * 100) * intensity * 0.2;
          positions = positions[i3 := positions ! i3 + (tX + nx - positions ! i3) * lerpSpeed];
          positions = positions[i3 + 1 :=
                        positions ! (i3 + 1) + (tY + ny - positions ! (i3 + 1)) * lerpSpeed];
          positions = positions[i3 + 2 :=
                        positions ! (i3 + 2) + (tZ + nz - positions ! (i3 + 2)) * lerpSpeed]
      in positions)"

text \<open>
  One call of the \<^verbatim>\<open>useFrame\<close> callback, at the elapsed time \<open>time\<close> and with the frame time
  \<open>delta\<close>. Nothing happens while the points object is not mounted.
\<close>

definition useFrame ::
  "CelestialBodyConfig \<Rightarrow> real \<Rightarrow> particle_set \<Rightarrow> real \<times> real \<times> real \<times> real
     \<Rightarrow> points option \<Rightarrow> points option" where
  "useFrame bodyConfig expansion ps frame pointsRef =
     (case pointsRef of
        None \<Rightarrow> None
      | Some pts \<Rightarrow>
          (case frame of (time, delta, rotationInfluence_x, rotationInfluence_y) \<Rightarrow>
             let positions = fold (frameParticle bodyConfig expansion ps time) [0..<count]
                               (position_array pts);
                 baseRotationSpeed = (if name bodyConfig = ''Sun'' then 0.05 else 0.1) * delta;
                 handRotationX = rotationInfluence_x * 2.0 * delta;
                 handRotationY = rotationInfluence_y * 1.0 * delta
             in Some (pts\<lparr>position_array := positions,
                          rotation_y := rotation_y pts + (baseRotationSpeed + handRotationX),
                          rotation_x := rotation_x pts + handRotationY\<rparr>)))"

text \<open>
  A run of frames with the expansion held at one value: each frame is the elapsed time, the
  frame time and the rotation influence of that frame.
\<close>

definition runFrames ::
  "CelestialBodyConfig \<Rightarrow> real \<Rightarrow> particle_set \<Rightarrow> (real \<times> real \<times> real \<times> real) list
     \<Rightarrow> points option \<Rightarrow> points option" where
  "runFrames bodyConfig expansion ps frames pointsRef =
     fold (useFrame bodyConfig expansion ps) frames pointsRef"

section \<open>Notions for the statements\<close>

text \<open>
  The value \<open>getSafeColor\<close> gives its new object; and the relation between a state and a
  later one: no draw is taken back and every object of the earlier store still has its
  value.
\<close>

definition sampledValue :: "ref list \<Rightarrow> js_number \<Rightarrow> gen_state \<Rightarrow> color" where
  "sampledValue P idx s = (if P = [] then white else cells s (P ! spec_index (length P) idx))"

definition extends :: "gen_state \<Rightarrow> gen_state \<Rightarrow> bool" where
  "extends s s' \<longleftrightarrow>
     nextRef s \<le> nextRef s' \<and> draws s \<le> draws s' \<and> (\<forall>x<nextRef s. cells s' x = cells s x)"

text \<open>
  A palette is intact in a state when each of its objects holds the value it was built
  with; the distance of a point from the vertical axis, and from the centre.
\<close>

definition intact :: "ref list \<Rightarrow> color list \<Rightarrow> gen_state \<Rightarrow> bool" where
  "intact P vals s \<longleftrightarrow>
     length P = length vals \<and> (\<forall>k<length P. P ! k < nextRef s \<and> cells s (P ! k) = vals ! k)"

definition radialDistance :: "real \<Rightarrow> real \<Rightarrow> real" where
  "radialDistance x z = sqrt (x\<^sup>2 + z\<^sup>2)"

definition euclideanNorm :: "real \<Rightarrow> real \<Rightarrow> real \<Rightarrow> real" where
  "euclideanNorm x y z = sqrt (x\<^sup>2 + y\<^sup>2 + z\<^sup>2)"

text \<open>The three buffer entries of the particle \<open>i\<close>.\<close>

definition block :: "real list \<Rightarrow> nat \<Rightarrow> real \<times> real \<times> real" where
  "block xs i = (xs ! (i * 3), xs ! (i * 3 + 1), xs ! (i * 3 + 2))"

text \<open>A ring particle lies in the annulus of the body, close to its plane.\<close>

definition inAnnulus :: "real \<Rightarrow> real \<times> real \<times> real \<Rightarrow> bool" where
  "inAnnulus rad p =
     (case p of (x, y, z) \<Rightarrow>
        rad * 1.3 \<le> radialDistance x z \<and> radialDistance x z \<le> rad * 2.2 \<and> \<bar>y\<bar> \<le> 0.05)"

text \<open>The colour strings of the ring palette; none when the descriptor has no such field.\<close>

definition ringStrings :: "CelestialBodyConfig \<Rightarrow> string list" where
  "ringStrings bodyConfig = (case ringColors bodyConfig of Some cs \<Rightarrow> cs | None \<Rightarrow> [])"

text \<open>
  The origin position and the seed that the loop of the origin cloud gives a particle,
  from the six draws that start at the draw number \<open>d\<close>.
\<close>

definition originOf :: "(nat \<Rightarrow> real) \<Rightarrow> nat \<Rightarrow> real \<times> real \<times> real" where
  "originOf rnd d =
     (50 * cbrt (rnd d) * sin (arccos (2 * rnd (d + 2) - 1)) * cos (rnd (d + 1) * pi * 2),
      50 * cbrt (rnd d) * sin (arccos (2 * rnd (d + 2) - 1)) * sin (rnd (d + 1) * pi * 2),
      50 * cbrt (rnd d) * cos (arccos (2 * rnd (d + 2) - 1)))"

definition seedOf :: "(nat \<Rightarrow> real) \<Rightarrow> nat \<Rightarrow> real \<times> real \<times> real" where
  "seedOf rnd d = (rnd (d + 3), rnd (d + 4), rnd (d + 5))"

text \<open>The origin buffers of a state, which only the loop of the origin cloud writes.\<close>

definition originBuffers :: "gen_state \<Rightarrow> real list \<times> real list" where
  "originBuffers s = (initPos s, rands s)"

text \<open>
  The blend target of the buffer entry \<open>j\<close> in a frame, and the oscillation factor of that
  entry (the y entries use the cosine at rate 0.3, the others the sine at rate 0.5).
\<close>

definition blendTarget :: "real \<Rightarrow> particle_set \<Rightarrow> nat \<Rightarrow> real" where
  "blendTarget expansion ps j =
     expansion * initialPositions ps ! j + (1 - expansion) * targetPositions ps ! j"

definition oscillation :: "particle_set \<Rightarrow> real \<Rightarrow> nat \<Rightarrow> real" where
  "oscillation ps time j =
     (if j mod 3 = 1 then cos (time * 0.3 + randoms ps ! j * 100)
      else sin (time * 0.5 + randoms ps ! j * 100))"

section \<open>Inputs of the concrete runs\<close>

text \<open>
  Sequences of values of \<^verbatim>\<open>Math.random()\<close>: a constant one; one that is 0 for the first
  \<open>n\<close> draws and 1/2 afterwards; and one that is 0 up to the draw number 512000 and 1/2
  from there on.
\<close>

definition constDraws :: "real \<Rightarrow> nat \<Rightarrow> real" where
  "constDraws c k = c"

definition stuckDraws :: "nat \<Rightarrow> nat \<Rightarrow> real" where
  "stuckDraws n k = (if k < n then 0 else 1/2)"

definition rampDraws :: "nat \<Rightarrow> real" where
  "rampDraws k = (if k < 512000 then 0 else 1/2)"

text \<open>
  A parser of the colour strings \<^verbatim>\<open>#rrggbb\<close>: each channel is its two hexadecimal digits
  over 255.
\<close>

definition hexDigit :: "char \<Rightarrow> nat" where
  "hexDigit c =
     (let n = (of_char c :: nat) in
      if 48 \<le> n \<and> n \<le> 57 then n - 48
      else if 97 \<le> n \<and> n \<le> 102 then n - 87
      else if 65 \<le> n \<and> n \<le> 70 then n - 55
      else 0)"

definition hexColor :: "string \<Rightarrow> color" where
  "hexColor str =
     (case str of
        [h, r1, r2, g1, g2, b1, b2] \<Rightarrow>
          Color (real (16 * hexDigit r1 + hexDigit r2) / 255)
                (real (16 * hexDigit g1 + hexDigit g2) / 255)
                (real (16 * hexDigit b1 + hexDigit b2) / 255)
      | _ \<Rightarrow> white)"

text \<open>
  The descriptors of the two end-to-end tests of the specification, and Saturn with its ring
  palette emptied.
\<close>

definition testPlanet :: CelestialBodyConfig where
  "testPlanet = \<lparr>name = ''TestPlanet'', type = Planet, radius = 2.0,
                  colors = [''#000000'', ''#FFFFFF''], hasRings = False, ringColors = None,
                  textureType = ''noise''\<rparr>"

definition ringTest :: CelestialBodyConfig where
  "ringTest = \<lparr>name = ''RingTest'', type = Planet, radius = 3.0,
                colors = [''#FFFFFF''], hasRings = True, ringColors = Some [''#FF0000''],
                textureType = ''noise''\<rparr>"


text \<open>
  The states after a first generation, for Mercury, and a second one, for Venus, on the last
  sequence of draws.
\<close>

definition afterMercury :: gen_state where
  "afterMercury = generate hexColor rampDraws (CELESTIAL_BODIES ! 1) initialState"

definition afterVenus :: gen_state where
  "afterVenus = generate hexColor rampDraws (CELESTIAL_BODIES ! 2) afterMercury"

text \<open>
  A particle set at rest, a points object at rest, and frames whose elapsed times put the sine
  of the x entries at its peak.
\<close>

definition restSet :: particle_set where
  "restSet = \<lparr>initialPositions = replicate (3 * count) 0, targetPositions = replicate (3 * count) 0,
              colors' = replicate (3 * count) 1, randoms = replicate (3 * count) 0\<rparr>"

definition peakFrames :: "nat \<Rightarrow> (real \<times> real \<times> real \<times> real) list" where
  "peakFrames n = map (\<lambda>k. (pi + 4 * pi * real k, 4 * pi, 0, 0)) [0..<n]"

definition restPoints :: points where
  "restPoints = \<lparr>position_array = replicate (3 * count) 0, rotation_x = 0, rotation_y = 0\<rparr>"

section \<open>Properties of the palette sampler\<close>

lemma safeIndex_range:
  "0 < len \<Longrightarrow> 0 \<le> safeIndex len idx \<and> safeIndex len idx < int len"
  by (simp add: safeIndex_def Let_def)

lemma max_min_clamp:
  "(0::int) \<le> hi \<Longrightarrow> max 0 (min k hi) = clamp k 0 hi"
  unfolding clamp_def by arith

lemma safeIndex_spec:
  "0 < len \<Longrightarrow> nat (safeIndex len idx) = spec_index len idx"
  by (cases idx) (simp_all add: safeIndex_def spec_index_def max_min_clamp, simp_all add: clamp_def)

lemma getSafeColor_nonempty:
  assumes "P \<noteq> []"
  shows "getSafeColor P idx s = clone (P ! spec_index (length P) idx) s"
  using assms safeIndex_range [of "length P" idx] safeIndex_spec [of "length P" idx]
  by (simp add: getSafeColor_def nth_opt_def)

text \<open>
  Claim C1. For every palette and every index, NaN, the infinities and negative values
  included, \<open>getSafeColor\<close> returns a newly allocated colour object (the function has no
  failing branch). Its value is white for the empty palette; otherwise it is the value of
  the palette entry at the floor of the index clamped to \<open>[0, len - 1]\<close>, a non-finite
  index counting as 0.
\<close>

theorem getSafeColor_sample:
  "fst (getSafeColor P idx s) = nextRef s \<and>
   nextRef (snd (getSafeColor P idx s)) = Suc (nextRef s) \<and>
   cells (snd (getSafeColor P idx s)) (fst (getSafeColor P idx s)) =
     (if P = [] then white
      else if isFinite idx then cells s (P ! spec_index (length P) idx)
      else cells s (P ! 0))"
proof (cases "P = []")
  case True
  then show ?thesis by (simp add: getSafeColor_def newColor_def)
next
  case False
  have "\<not> isFinite idx \<Longrightarrow> spec_index (length P) idx = 0"
    by (cases idx) (simp_all add: spec_index_def)
  with False show ?thesis
    by (auto simp: getSafeColor_nonempty clone_def newColor_def)
qed

section \<open>Oscillation intensity\<close>

lemma noiseIntensity_mono_other:
  "ty \<noteq> Star \<Longrightarrow> e1 \<le> e2 \<Longrightarrow> noiseIntensity ty e1 \<le> noiseIntensity ty e2"
  by (simp add: noiseIntensity_def)

lemma noiseIntensity_mono_star_low:
  "e1 \<le> e2 \<Longrightarrow> e2 < 0.1 \<Longrightarrow> noiseIntensity Star e1 \<le> noiseIntensity Star e2"
  by (simp add: noiseIntensity_def)

lemma noiseIntensity_mono_star_high:
  "e1 \<le> e2 \<Longrightarrow> 0.1 \<le> e1 \<Longrightarrow> noiseIntensity Star e1 \<le> noiseIntensity Star e2"
  by (simp add: noiseIntensity_def)

text \<open>
  Claim C8, as the source has it. For a body that is not a star the intensity increases with
  the expansion on the whole of \<open>[0, 1]\<close>. For a star it increases on each side of the
  threshold 0.1 (both values below it, or both at or above it), and across the threshold it
  falls by at most 0.03, the size of the extra floor. At expansion 0 the intensity is the
  floor: 0.02, and 0.05 for a star.
\<close>

theorem noiseIntensity_monotone_by_side:
  assumes "0 \<le> e1" and "e1 < e2" and "e2 \<le> 1"
  shows "(ty \<noteq> Star \<or> e2 < 0.1 \<or> 0.1 \<le> e1 \<longrightarrow> noiseIntensity ty e1 \<le> noiseIntensity ty e2)
       \<and> noiseIntensity ty e1 \<le> noiseIntensity ty e2 + 0.03
       \<and> noiseIntensity ty 0 = (if ty = Star then 0.05 else 0.02)
       \<and> 0.02 \<le> noiseIntensity ty 0"
  using assms by (auto simp: noiseIntensity_def)

theorem noiseIntensity_monotone_by_side_witness:
  "(0::real) \<le> 1/4 \<and> (1/4::real) < 1/2 \<and> (1/2::real) \<le> 1
   \<and> noiseIntensity Star (1/4) \<le> noiseIntensity Star (1/2)
   \<and> noiseIntensity Star (1/4) \<le> noiseIntensity Star (1/2) + 0.03
   \<and> noiseIntensity Star 0 = 0.05 \<and> 0.02 \<le> noiseIntensity Star 0"
  using noiseIntensity_monotone_by_side [of "1/4" "1/2" Star] by simp

text \<open>
  For a star the intensity is not monotone: just below the threshold, at expansion 3/32,
  it is 0.125, and at expansion 1/8 it is 0.12.
\<close>

theorem noiseIntensity_star_not_monotone:
  "(0::real) \<le> 3/32 \<and> (3/32::real) < 1/8 \<and> (1/8::real) \<le> 1
   \<and> \<not> noiseIntensity Star (3/32) \<le> noiseIntensity Star (1/8)"
  by (simp add: noiseIntensity_def)

section \<open>The body selection policy: what a call returns\<close>

lemma drawIndex_range:
  assumes "catalog \<noteq> []" and "0 \<le> rnd k" and "rnd k < 1"
  shows "0 \<le> drawIndex catalog rnd k \<and> drawIndex catalog rnd k < int (length catalog)"
proof -
  have "rnd k * real (length catalog) < real (length catalog)"
    using assms by simp
  then have "\<lfloor>rnd k * real (length catalog)\<rfloor> < int (length catalog)"
    by (simp add: floor_less_iff)
  moreover have "0 \<le> rnd k * real (length catalog)"
    using assms by simp
  ultimately show ?thesis by (simp add: drawIndex_def)
qed



text \<open>The body that the draw number k selects.\<close>

lemma selectNext_first_other:
  assumes "catalog \<noteq> []" and "\<forall>j. 0 \<le> rnd j \<and> rnd j < 1"
    and "\<forall>i<j. name (catalog ! nat (drawIndex catalog rnd (k + i))) = name currentBody"
    and "name (catalog ! nat (drawIndex catalog rnd (k + j))) \<noteq> name currentBody"
  shows "selectNext catalog rnd currentBody k =
           Some (Inr (catalog ! nat (drawIndex catalog rnd (k + j)), Suc (k + j)))"
  using assms(3,4)
proof (induction j arbitrary: k)
  case 0
  have "nth_opt catalog (drawIndex catalog rnd k) = Some (catalog ! nat (drawIndex catalog rnd k))"
    using drawIndex_range [of catalog rnd k] assms(1,2) by (simp add: nth_opt_def)
  with 0 show ?case by (subst selectNext.simps) (simp add: Let_def)
next
  case (Suc j)
  have pick: "nth_opt catalog (drawIndex catalog rnd k) = Some (catalog ! nat (drawIndex catalog rnd k))"
    using drawIndex_range [of catalog rnd k] assms(1,2) by (simp add: nth_opt_def)
  from Suc.prems(1) have same: "name (catalog ! nat (drawIndex catalog rnd k)) = name currentBody"
    by (metis add.right_neutral zero_less_Suc)
  have "\<forall>i<j. name (catalog ! nat (drawIndex catalog rnd (Suc k + i))) = name currentBody"
    using Suc.prems(1) by (metis Suc_less_eq add_Suc_right add_Suc)
  moreover have "name (catalog ! nat (drawIndex catalog rnd (Suc k + j))) \<noteq> name currentBody"
    using Suc.prems(2) by simp
  ultimately have "selectNext catalog rnd currentBody (Suc k) =
      Some (Inr (catalog ! nat (drawIndex catalog rnd (Suc k + j)), Suc (Suc k + j)))"
    by (rule Suc.IH)
  with pick same show ?case by (subst selectNext.simps) (simp add: Let_def)
qed

lemma selectNext_returns_other:
  assumes major: "selectNext catalog rnd currentBody k = Some res"
    and "catalog \<noteq> []" and "\<forall>j. 0 \<le> rnd j \<and> rnd j < 1"
  shows "\<exists>j. name (catalog ! nat (drawIndex catalog rnd (k + j))) \<noteq> name currentBody"
proof -
  have "catalog \<noteq> [] \<and> (\<forall>j. 0 \<le> rnd j \<and> rnd j < 1) \<longrightarrow>
          (\<exists>j. name (catalog ! nat (drawIndex catalog rnd (k + j))) \<noteq> name currentBody)"
  proof (rule selectNext.raw_induct [OF _ major, where P = "\<lambda>catalog rnd currentBody k res.
           catalog \<noteq> [] \<and> (\<forall>j. 0 \<le> rnd j \<and> rnd j < 1) \<longrightarrow>
           (\<exists>j. name (catalog ! nat (drawIndex catalog rnd (k + j))) \<noteq> name currentBody)"])
    fix sn catalog rnd currentBody k and res :: "error + CelestialBodyConfig \<times> nat"
    assume IH: "\<And>catalog rnd currentBody k res. sn catalog rnd currentBody k = Some res \<Longrightarrow>
           catalog \<noteq> [] \<and> (\<forall>j. 0 \<le> rnd j \<and> rnd j < 1) \<longrightarrow>
           (\<exists>j. name (catalog ! nat (drawIndex catalog rnd (k + j))) \<noteq> name currentBody)"
      and eq: "(let idx = drawIndex catalog rnd k in
                case nth_opt catalog idx of
                  None \<Rightarrow> Some (Inl TypeError)
                | Some newBody \<Rightarrow>
                    if name newBody = name currentBody
                    then sn catalog rnd currentBody (Suc k)
                    else Some (Inr (newBody, Suc k))) = Some res"
    show "catalog \<noteq> [] \<and> (\<forall>j. 0 \<le> rnd j \<and> rnd j < 1) \<longrightarrow>
           (\<exists>j. name (catalog ! nat (drawIndex catalog rnd (k + j))) \<noteq> name currentBody)"
    proof (intro impI)
      assume A: "catalog \<noteq> [] \<and> (\<forall>j. 0 \<le> rnd j \<and> rnd j < 1)"
      then have pick: "nth_opt catalog (drawIndex catalog rnd k) =
                         Some (catalog ! nat (drawIndex catalog rnd k))"
        using drawIndex_range [of catalog rnd k] by (simp add: nth_opt_def)
      show "\<exists>j. name (catalog ! nat (drawIndex catalog rnd (k + j))) \<noteq> name currentBody"
      proof (cases "name (catalog ! nat (drawIndex catalog rnd k)) = name currentBody")
        case True
        with pick eq have "sn catalog rnd currentBody (Suc k) = Some res" by (simp add: Let_def)
        from IH [OF this] A obtain j
          where "name (catalog ! nat (drawIndex catalog rnd (Suc k + j))) \<noteq> name currentBody"
          by auto
        then have "name (catalog ! nat (drawIndex catalog rnd (k + Suc j))) \<noteq> name currentBody"
          by simp
        then show ?thesis by blast
      next
        case False
        then have "name (catalog ! nat (drawIndex catalog rnd (k + 0))) \<noteq> name currentBody"
          by simp
        then show ?thesis by blast
      qed
    qed
  qed
  with assms(2,3) show ?thesis by simp
qed

lemma selectNext_stuck:
  assumes "catalog \<noteq> []" and "\<forall>j. 0 \<le> rnd j \<and> rnd j < 1"
    and "\<forall>j. name (catalog ! nat (drawIndex catalog rnd (k + j))) = name currentBody"
  shows "selectNext catalog rnd currentBody k = None"
proof (cases "selectNext catalog rnd currentBody k")
  case None
  then show ?thesis .
next
  case (Some res)
  from selectNext_returns_other [OF Some assms(1,2)] assms(3) show ?thesis by blast
qed

lemma CELESTIAL_BODIES_length: "length CELESTIAL_BODIES = 11"
  by (simp add: CELESTIAL_BODIES_def)

lemma constDraws_range: "0 \<le> c \<Longrightarrow> c < 1 \<Longrightarrow> \<forall>j. 0 \<le> constDraws c j \<and> constDraws c j < 1"
  by (simp add: constDraws_def)

lemma stuckDraws_range: "\<forall>j. 0 \<le> stuckDraws n j \<and> stuckDraws n j < 1"
  by (simp add: stuckDraws_def)








text \<open>
  Claim C5, as the source has it. The loop has no bound. For a non-empty catalog and draws in
  \<open>[0, 1)\<close> the call returns exactly when some draw selects a body whose name differs from
  the current one; it then returns the body of the first such draw, after one draw more than
  the number of draws that selected the current name. For a catalog whose only entry is
  the current body it never returns.
\<close>

theorem selectNext_returns_iff:
  assumes "catalog \<noteq> []" and "\<forall>j. 0 \<le> rnd j \<and> rnd j < 1"
  shows "(selectNext catalog rnd currentBody k \<noteq> None \<longleftrightarrow>
            (\<exists>j. name (catalog ! nat (drawIndex catalog rnd (k + j))) \<noteq> name currentBody))
       \<and> (\<forall>j. (\<forall>i<j. name (catalog ! nat (drawIndex catalog rnd (k + i))) = name currentBody)
               \<and> name (catalog ! nat (drawIndex catalog rnd (k + j))) \<noteq> name currentBody \<longrightarrow>
               selectNext catalog rnd currentBody k =
                 Some (Inr (catalog ! nat (drawIndex catalog rnd (k + j)), Suc (k + j))))
       \<and> (catalog = [currentBody] \<longrightarrow> selectNext catalog rnd currentBody k = None)"
proof (intro conjI allI impI)
  show "selectNext catalog rnd currentBody k \<noteq> None \<longleftrightarrow>
            (\<exists>j. name (catalog ! nat (drawIndex catalog rnd (k + j))) \<noteq> name currentBody)"
  proof
    assume "selectNext catalog rnd currentBody k \<noteq> None"
    then obtain res where "selectNext catalog rnd currentBody k = Some res" by auto
    then show "\<exists>j. name (catalog ! nat (drawIndex catalog rnd (k + j))) \<noteq> name currentBody"
      using assms by (rule selectNext_returns_other)
  next
    assume "\<exists>j. name (catalog ! nat (drawIndex catalog rnd (k + j))) \<noteq> name currentBody"
    then obtain j where other: "name (catalog ! nat (drawIndex catalog rnd (k + j))) \<noteq> name currentBody"
      and least: "\<forall>i<j. name (catalog ! nat (drawIndex catalog rnd (k + i))) = name currentBody"
      using exists_least_iff [of "\<lambda>j. name (catalog ! nat (drawIndex catalog rnd (k + j))) \<noteq> name currentBody"]
      by auto
    from selectNext_first_other [OF assms least other]
    show "selectNext catalog rnd currentBody k \<noteq> None" by simp
  qed
next
  fix j
  assume "(\<forall>i<j. name (catalog ! nat (drawIndex catalog rnd (k + i))) = name currentBody)
               \<and> name (catalog ! nat (drawIndex catalog rnd (k + j))) \<noteq> name currentBody"
  then show "selectNext catalog rnd currentBody k =
                 Some (Inr (catalog ! nat (drawIndex catalog rnd (k + j)), Suc (k + j)))"
    using selectNext_first_other [OF assms] by blast
next
  assume single: "catalog = [currentBody]"
  have "drawIndex catalog rnd (k + j) = 0" for j
    using drawIndex_range [OF assms(1), of rnd "k + j"] assms(2) single by simp
  then have "\<forall>j. name (catalog ! nat (drawIndex catalog rnd (k + j))) = name currentBody"
    using single by simp
  then show "selectNext catalog rnd currentBody k = None"
    by (rule selectNext_stuck [OF assms])
qed

theorem selectNext_returns_iff_witness:
  "CELESTIAL_BODIES \<noteq> [] \<and> (\<forall>j. 0 \<le> stuckDraws 12 j \<and> stuckDraws 12 j < 1)
   \<and> changeCelestialBody (stuckDraws 12) (hd CELESTIAL_BODIES) 0 \<noteq> None
   \<and> changeCelestialBody (stuckDraws 12) (hd CELESTIAL_BODIES) 0 =
        Some (Inr (CELESTIAL_BODIES ! 5, 13))"
proof -
  have a: "CELESTIAL_BODIES \<noteq> []" by (simp add: CELESTIAL_BODIES_def)
  have b: "\<forall>j. 0 \<le> stuckDraws 12 j \<and> stuckDraws 12 j < 1" by (rule stuckDraws_range)
  have same: "\<forall>i<12. name (CELESTIAL_BODIES ! nat (drawIndex CELESTIAL_BODIES (stuckDraws 12) (0 + i)))
                = name (hd CELESTIAL_BODIES)"
    by (simp add: drawIndex_def stuckDraws_def CELESTIAL_BODIES_def)
  have idx: "drawIndex CELESTIAL_BODIES (stuckDraws 12) (0 + 12) = 5"
    by (simp add: drawIndex_def stuckDraws_def CELESTIAL_BODIES_length)
  then have other: "name (CELESTIAL_BODIES ! nat (drawIndex CELESTIAL_BODIES (stuckDraws 12) (0 + 12)))
                \<noteq> name (hd CELESTIAL_BODIES)"
    by (simp add: CELESTIAL_BODIES_def)
  from selectNext_returns_iff [OF a b, of "hd CELESTIAL_BODIES" 0] same other idx a b
  show ?thesis
    unfolding changeCelestialBody_def by (auto simp del: One_nat_def)
qed

text \<open>
  With a catalog of one body the loop never ends; and on the shipped catalog of eleven
  bodies a run that draws the current body twelve times makes thirteen draws.
\<close>

theorem selectNext_single_loops:
  "selectNext [hd CELESTIAL_BODIES] (constDraws 0) (hd CELESTIAL_BODIES) 0 = None
   \<and> length CELESTIAL_BODIES = 11
   \<and> changeCelestialBody (stuckDraws 12) (hd CELESTIAL_BODIES) 0 =
        Some (Inr (CELESTIAL_BODIES ! 5, 13))"
proof -
  have "selectNext [hd CELESTIAL_BODIES] (constDraws 0) (hd CELESTIAL_BODIES) 0 = None"
    by (rule selectNext_stuck) (simp_all add: constDraws_def drawIndex_def)
  moreover have "changeCelestialBody (stuckDraws 12) (hd CELESTIAL_BODIES) 0 =
        Some (Inr (CELESTIAL_BODIES ! 5, 13))"
  proof -
    have a: "CELESTIAL_BODIES \<noteq> []" by (simp add: CELESTIAL_BODIES_def)
    have same: "\<forall>i<12. name (CELESTIAL_BODIES ! nat (drawIndex CELESTIAL_BODIES (stuckDraws 12) (0 + i)))
                  = name (hd CELESTIAL_BODIES)"
      by (simp add: drawIndex_def stuckDraws_def CELESTIAL_BODIES_def)
    have idx: "drawIndex CELESTIAL_BODIES (stuckDraws 12) (0 + 12) = 5"
      by (simp add: drawIndex_def stuckDraws_def CELESTIAL_BODIES_length)
    then have other: "name (CELESTIAL_BODIES ! nat (drawIndex CELESTIAL_BODIES (stuckDraws 12) (0 + 12)))
                  \<noteq> name (hd CELESTIAL_BODIES)"
      by (simp add: CELESTIAL_BODIES_def)
    from selectNext_first_other [OF a stuckDraws_range same other] idx
    show ?thesis by (simp add: changeCelestialBody_def)
  qed
  ultimately show ?thesis by (simp add: CELESTIAL_BODIES_length)
qed

section \<open>The animation driver: convergence of the live positions\<close>

lemma frameParticle_length [simp]:
  "length (frameParticle bodyConfig expansion ps time i positions) = length positions"
  by (simp add: frameParticle_def Let_def)

lemma frameParticle_other:
  "j < 3 * i \<or> 3 * i + 3 \<le> j \<Longrightarrow>
   frameParticle bodyConfig expansion ps time i positions ! j = positions ! j"
  by (auto simp: frameParticle_def Let_def)

lemma frameParticle_own:
  assumes "3 * i \<le> j" and "j < 3 * i + 3" and "j < length positions"
  shows "frameParticle bodyConfig expansion ps time i positions ! j =
           positions ! j + (blendTarget expansion ps j
              + oscillation ps time j * noiseIntensity (type bodyConfig) expansion * 0.2
              - positions ! j) * lerpSpeed"
proof -
  from assms(1,2) consider "j = 3 * i" | "j = 3 * i + 1" | "j = 3 * i + 2" by linarith
  then show ?thesis
  proof cases
    case 1
    then have "j mod 3 = 0" by simp
    with 1 assms(3) show ?thesis
      by (simp add: frameParticle_def Let_def blendTarget_def oscillation_def mult.commute)
  next
    case 2
    then have "j mod 3 = 1" by presburger
    with 2 assms(3) show ?thesis
      by (simp add: frameParticle_def Let_def blendTarget_def oscillation_def mult.commute)
  next
    case 3
    then have "j mod 3 = 2" by presburger
    with 3 assms(3) show ?thesis
      by (simp add: frameParticle_def Let_def blendTarget_def oscillation_def mult.commute)
  qed
qed

lemma frame_loop:
  assumes "length positions = 3 * count"
  shows "n \<le> count \<Longrightarrow>
     length (fold (frameParticle bodyConfig expansion ps time) [0..<n] positions) = 3 * count
     \<and> (\<forall>j<3 * n. fold (frameParticle bodyConfig expansion ps time) [0..<n] positions ! j =
           positions ! j + (blendTarget expansion ps j
              + oscillation ps time j * noiseIntensity (type bodyConfig) expansion * 0.2
              - positions ! j) * lerpSpeed)
     \<and> (\<forall>j\<ge>3 * n. fold (frameParticle bodyConfig expansion ps time) [0..<n] positions ! j =
           positions ! j)"
proof (induction n)
  case 0
  with assms show ?case by simp
next
  case (Suc n)
  let ?before = "fold (frameParticle bodyConfig expansion ps time) [0..<n] positions"
  from Suc have len: "length ?before = 3 * count"
    and finished: "\<forall>j<3 * n. ?before ! j =
           positions ! j + (blendTarget expansion ps j
              + oscillation ps time j * noiseIntensity (type bodyConfig) expansion * 0.2
              - positions ! j) * lerpSpeed"
    and rest: "\<forall>j\<ge>3 * n. ?before ! j = positions ! j"
    by simp_all
  have step: "fold (frameParticle bodyConfig expansion ps time) [0..<Suc n] positions =
              frameParticle bodyConfig expansion ps time n ?before"
    by simp
  show ?case
  proof (intro conjI allI impI)
    show "length (fold (frameParticle bodyConfig expansion ps time) [0..<Suc n] positions) = 3 * count"
      using len by (simp del: upt_Suc add: step)
  next
    fix j assume j: "j < 3 * Suc n"
    show "fold (frameParticle bodyConfig expansion ps time) [0..<Suc n] positions ! j =
           positions ! j + (blendTarget expansion ps j
              + oscillation ps time j * noiseIntensity (type bodyConfig) expansion * 0.2
              - positions ! j) * lerpSpeed"
    proof (cases "j < 3 * n")
      case True
      then show ?thesis using finished by (simp del: upt_Suc add: step frameParticle_other)
    next
      case False
      with j Suc.prems len have "3 * n \<le> j" "j < 3 * n + 3" "j < length ?before" by simp_all
      from frameParticle_own [OF this] rest \<open>3 * n \<le> j\<close> show ?thesis
        by (simp del: upt_Suc add: step)
    qed
  next
    fix j assume "3 * Suc n \<le> j"
    then show "fold (frameParticle bodyConfig expansion ps time) [0..<Suc n] positions ! j =
           positions ! j"
      using rest by (simp del: upt_Suc add: step frameParticle_other)
  qed
qed

text \<open>One frame, entry by entry.\<close>

lemma useFrame_entry:
  assumes "length (position_array pts) = 3 * count" and "j < 3 * count"
  shows "\<exists>pts'. useFrame bodyConfig expansion ps (time, delta, rx, ry) (Some pts) = Some pts'
     \<and> length (position_array pts') = 3 * count
     \<and> position_array pts' ! j =
           position_array pts ! j + (blendTarget expansion ps j
              + oscillation ps time j * noiseIntensity (type bodyConfig) expansion * 0.2
              - position_array pts ! j) * lerpSpeed"
  using frame_loop [OF assms(1), of count bodyConfig expansion ps time] assms(2)
  by (simp add: useFrame_def Let_def)

lemma lerp_step_bound:
  fixes p T osc A :: real
  assumes "\<bar>osc\<bar> \<le> A"
  shows "\<bar>(p + (T + osc - p) * lerpSpeed) - T\<bar> \<le> (1 - lerpSpeed) * \<bar>p - T\<bar> + lerpSpeed * A"
proof -
  have "(p + (T + osc - p) * lerpSpeed) - T = (1 - lerpSpeed) * (p - T) + lerpSpeed * osc"
    by (simp add: algebra_simps)
  moreover have "\<bar>(1 - lerpSpeed) * (p - T) + lerpSpeed * osc\<bar>
                   \<le> \<bar>(1 - lerpSpeed) * (p - T)\<bar> + \<bar>lerpSpeed * osc\<bar>"
    by (rule abs_triangle_ineq)
  moreover have "\<bar>(1 - lerpSpeed) * (p - T)\<bar> = (1 - lerpSpeed) * \<bar>p - T\<bar>"
  proof -
    have "0 \<le> 1 - lerpSpeed" by (simp add: lerpSpeed_def)
    then show ?thesis by (simp only: abs_mult abs_of_nonneg)
  qed
  moreover have "\<bar>lerpSpeed * osc\<bar> \<le> lerpSpeed * A"
  proof -
    have "0 \<le> lerpSpeed" by (simp add: lerpSpeed_def)
    then have "\<bar>lerpSpeed * osc\<bar> = lerpSpeed * \<bar>osc\<bar>" by (simp only: abs_mult abs_of_nonneg)
    also have "\<dots> \<le> lerpSpeed * A" using assms \<open>0 \<le> lerpSpeed\<close> by (rule mult_left_mono)
    finally show ?thesis .
  qed
  ultimately show ?thesis by simp
qed

lemma geometric_step:
  fixes l d A :: real
  shows "(1 - l) ^ n * ((1 - l) * d + l * A) + A * (1 - (1 - l) ^ n)
           = (1 - l) ^ Suc n * d + A * (1 - (1 - l) ^ Suc n)"
  by (simp add: algebra_simps)

lemma oscillation_bound:
  "\<bar>oscillation ps time j * noiseIntensity ty expansion * 0.2\<bar> \<le> 0.2 * \<bar>noiseIntensity ty expansion\<bar>"
proof -
  have "\<bar>oscillation ps time j\<bar> \<le> 1"
    by (simp add: oscillation_def)
  then have "\<bar>oscillation ps time j\<bar> * \<bar>noiseIntensity ty expansion\<bar> \<le> 1 * \<bar>noiseIntensity ty expansion\<bar>"
    by (rule mult_right_mono) simp
  then show ?thesis by (simp add: abs_mult)
qed

lemma runFrames_bound:
  assumes "j < 3 * count"
  shows "length (position_array pts) = 3 * count \<Longrightarrow>
     \<exists>pts'. runFrames bodyConfig expansion ps frames (Some pts) = Some pts'
       \<and> length (position_array pts') = 3 * count
       \<and> \<bar>position_array pts' ! j - blendTarget expansion ps j\<bar>
           \<le> (1 - lerpSpeed) ^ length frames * \<bar>position_array pts ! j - blendTarget expansion ps j\<bar>
             + 0.2 * \<bar>noiseIntensity (type bodyConfig) expansion\<bar> * (1 - (1 - lerpSpeed) ^ length frames)"
proof (induction frames arbitrary: pts)
  case Nil
  then show ?case by (simp add: runFrames_def)
next
  case (Cons frame frames)
  let ?T = "blendTarget expansion ps j"
  let ?A = "0.2 * \<bar>noiseIntensity (type bodyConfig) expansion\<bar>"
  let ?q = "1 - lerpSpeed"
  obtain time delta rx ry where frame: "frame = (time, delta, rx, ry)"
    by (cases frame) auto
  from useFrame_entry [OF Cons.prems assms, of bodyConfig expansion ps time delta rx ry]
  obtain pts1 where one: "useFrame bodyConfig expansion ps frame (Some pts) = Some pts1"
    and len1: "length (position_array pts1) = 3 * count"
    and val1: "position_array pts1 ! j =
           position_array pts ! j + (?T
              + oscillation ps time j * noiseIntensity (type bodyConfig) expansion * 0.2
              - position_array pts ! j) * lerpSpeed"
    using frame by auto
  from Cons.IH [OF len1] obtain pts' where
    run: "runFrames bodyConfig expansion ps frames (Some pts1) = Some pts'"
    and len': "length (position_array pts') = 3 * count"
    and bound: "\<bar>position_array pts' ! j - ?T\<bar>
           \<le> ?q ^ length frames * \<bar>position_array pts1 ! j - ?T\<bar> + ?A * (1 - ?q ^ length frames)"
    by auto
  have step: "\<bar>position_array pts1 ! j - ?T\<bar> \<le> ?q * \<bar>position_array pts ! j - ?T\<bar> + lerpSpeed * ?A"
    unfolding val1 by (rule lerp_step_bound) (rule oscillation_bound)
  have q0: "0 \<le> ?q ^ length frames" by (simp add: lerpSpeed_def)
  have "?q ^ length frames * \<bar>position_array pts1 ! j - ?T\<bar>
          \<le> ?q ^ length frames * (?q * \<bar>position_array pts ! j - ?T\<bar> + lerpSpeed * ?A)"
    using step q0 by (rule mult_left_mono)
  with bound have "\<bar>position_array pts' ! j - ?T\<bar>
          \<le> ?q ^ length frames * (?q * \<bar>position_array pts ! j - ?T\<bar> + lerpSpeed * ?A)
             + ?A * (1 - ?q ^ length frames)"
    by linarith
  also have "\<dots> = ?q ^ length (frame # frames) * \<bar>position_array pts ! j - ?T\<bar>
                 + ?A * (1 - ?q ^ length (frame # frames))"
    using geometric_step [of lerpSpeed "length frames" "\<bar>position_array pts ! j - ?T\<bar>" ?A]
    by simp
  finally have "\<bar>position_array pts' ! j - ?T\<bar>
          \<le> ?q ^ length (frame # frames) * \<bar>position_array pts ! j - ?T\<bar>
                 + ?A * (1 - ?q ^ length (frame # frames))" .
  moreover have "runFrames bodyConfig expansion ps (frame # frames) (Some pts) = Some pts'"
    using one run by (simp add: runFrames_def)
  ultimately show ?case using len' by blast
qed

lemma runFrames_eventually:
  assumes "length (position_array pts) = 3 * count" and "j < 3 * count" and "0 < eps"
  shows "\<exists>K. \<forall>frames. K \<le> length frames \<longrightarrow>
           (\<exists>pts'. runFrames bodyConfig expansion ps frames (Some pts) = Some pts'
              \<and> \<bar>position_array pts' ! j - blendTarget expansion ps j\<bar>
                   < 0.2 * \<bar>noiseIntensity (type bodyConfig) expansion\<bar> + eps)"
proof -
  let ?T = "blendTarget expansion ps j"
  let ?A = "0.2 * \<bar>noiseIntensity (type bodyConfig) expansion\<bar>"
  let ?q = "1 - lerpSpeed"
  let ?d = "\<bar>position_array pts ! j - ?T\<bar>"
  have q: "0 \<le> ?q" "?q < 1" "?q \<le> 1" by (simp_all add: lerpSpeed_def)
  have "0 < eps / (?d + 1)" using assms(3) by simp
  from real_arch_pow_inv [OF this q(2)] obtain K where K: "?q ^ K < eps / (?d + 1)" by blast
  have small: "?q ^ K * ?d < eps"
  proof -
    have "?q ^ K * (?d + 1) < eps" using K by (simp add: pos_less_divide_eq)
    moreover have "?q ^ K * ?d \<le> ?q ^ K * (?d + 1)"
      using q(1) by (simp add: mult_left_mono)
    ultimately show ?thesis by linarith
  qed
  show ?thesis
  proof (intro exI [of _ K] allI impI)
    fix frames :: "(real \<times> real \<times> real \<times> real) list"
    assume long: "K \<le> length frames"
    from runFrames_bound [OF assms(2,1), of bodyConfig expansion ps frames]
    obtain pts' where run: "runFrames bodyConfig expansion ps frames (Some pts) = Some pts'"
      and bound: "\<bar>position_array pts' ! j - ?T\<bar>
           \<le> ?q ^ length frames * ?d + ?A * (1 - ?q ^ length frames)"
      by auto
    have "?q ^ length frames \<le> ?q ^ K"
      using long q(1,3) by (rule power_decreasing)
    then have "?q ^ length frames * ?d \<le> ?q ^ K * ?d"
      by (rule mult_right_mono) simp
    moreover have "?A * (1 - ?q ^ length frames) \<le> ?A"
    proof -
      have "0 \<le> ?q ^ length frames" using q(1) by simp
      then have "?A * (1 - ?q ^ length frames) \<le> ?A * 1"
        by (intro mult_left_mono) simp_all
      then show ?thesis by simp
    qed
    ultimately have "\<bar>position_array pts' ! j - ?T\<bar> < ?A + eps"
      using bound small by linarith
    with run show "\<exists>pts'. runFrames bodyConfig expansion ps frames (Some pts) = Some pts'
              \<and> \<bar>position_array pts' ! j - ?T\<bar> < ?A + eps"
      by blast
  qed
qed

text \<open>
  Claim C9, as the source has it. With the expansion held at one value and the points object
  mounted, every entry of the live position buffer ends up, and stays, closer to its blend
  target than the jitter amplitude plus any given \<open>eps > 0\<close>. The jitter amplitude is 0.2
  times the intensity: at expansion 1 the target is the origin position and the amplitude
  is 0.164; at expansion 0 the target is the target position and the amplitude is 0.004,
  and 0.01 for a star.
\<close>

theorem livePosition_converges:
  assumes "length (position_array pts) = 3 * count"
    and "length (initialPositions ps) = 3 * count" and "length (targetPositions ps) = 3 * count"
    and "length (randoms ps) = 3 * count"
    and "j < 3 * count" and "0 < eps"
  shows "(\<exists>K. \<forall>frames. K \<le> length frames \<longrightarrow>
           (\<exists>pts'. runFrames bodyConfig 1 ps frames (Some pts) = Some pts'
              \<and> \<bar>position_array pts' ! j - initialPositions ps ! j\<bar> < 0.164 + eps))
       \<and> (\<exists>K. \<forall>frames. K \<le> length frames \<longrightarrow>
           (\<exists>pts'. runFrames bodyConfig 0 ps frames (Some pts) = Some pts'
              \<and> \<bar>position_array pts' ! j - targetPositions ps ! j\<bar>
                   < (if type bodyConfig = Star then 0.01 else 0.004) + eps))"
proof
  have A: "0.2 * \<bar>noiseIntensity (type bodyConfig) 1\<bar> = 0.164"
    by (simp add: noiseIntensity_def)
  have B: "blendTarget 1 ps j = initialPositions ps ! j"
    by (simp add: blendTarget_def)
  from runFrames_eventually [OF assms(1,5,6), of bodyConfig 1 ps] show "\<exists>K. \<forall>frames. K \<le> length frames \<longrightarrow>
           (\<exists>pts'. runFrames bodyConfig 1 ps frames (Some pts) = Some pts'
              \<and> \<bar>position_array pts' ! j - initialPositions ps ! j\<bar> < 0.164 + eps)"
    unfolding A B .
next
  have A: "0.2 * \<bar>noiseIntensity (type bodyConfig) 0\<bar> = (if type bodyConfig = Star then 0.01 else 0.004)"
    by (simp add: noiseIntensity_def)
  have B: "blendTarget 0 ps j = targetPositions ps ! j"
    by (simp add: blendTarget_def)
  from runFrames_eventually [OF assms(1,5,6), of bodyConfig 0 ps] show "\<exists>K. \<forall>frames. K \<le> length frames \<longrightarrow>
           (\<exists>pts'. runFrames bodyConfig 0 ps frames (Some pts) = Some pts'
              \<and> \<bar>position_array pts' ! j - targetPositions ps ! j\<bar>
                   < (if type bodyConfig = Star then 0.01 else 0.004) + eps)"
    unfolding A B .
qed

lemma count_pos: "0 < 3 * count"
  by (simp add: count_def)

theorem livePosition_converges_witness:
  "length (position_array restPoints) = 3 * count
   \<and> length (initialPositions restSet) = 3 * count \<and> length (targetPositions restSet) = 3 * count
   \<and> length (randoms restSet) = 3 * count \<and> 0 < 3 * count \<and> (0::real) < 1
   \<and> (\<exists>K. \<forall>frames. K \<le> length frames \<longrightarrow>
           (\<exists>pts'. runFrames (hd CELESTIAL_BODIES) 1 restSet frames (Some restPoints) = Some pts'
              \<and> \<bar>position_array pts' ! 0 - initialPositions restSet ! 0\<bar> < 0.164 + 1))
   \<and> (\<exists>K. \<forall>frames. K \<le> length frames \<longrightarrow>
           (\<exists>pts'. runFrames (hd CELESTIAL_BODIES) 0 restSet frames (Some restPoints) = Some pts'
              \<and> \<bar>position_array pts' ! 0 - targetPositions restSet ! 0\<bar> < 0.01 + 1))"
proof -
  have a: "length (position_array restPoints) = 3 * count" by (simp add: restPoints_def)
  have b: "length (initialPositions restSet) = 3 * count" by (simp add: restSet_def)
  have c: "length (targetPositions restSet) = 3 * count" by (simp add: restSet_def)
  have d: "length (randoms restSet) = 3 * count" by (simp add: restSet_def)
  have e: "(0::real) < 1" by simp
  have f: "type (hd CELESTIAL_BODIES) = Star" by (simp add: CELESTIAL_BODIES_def)
  from livePosition_converges [OF a b c d count_pos e, of "hd CELESTIAL_BODIES"] a b c d count_pos
  show ?thesis by (simp only: f if_True simp_thms)
qed

text \<open>
  At expansion 1 the live position does not settle within every \<open>eps\<close> of the origin
  position: in a run whose frames fall on the peaks of the sine, the x entry of the first
  particle, which starts on its origin position 0, is \<open>0.164 * (1 - 0.92 ^ n)\<close> after \<open>n\<close>
  frames, so it is never again within 0.01 of it.
\<close>

lemma sin_peak: "sin ((pi + 4 * pi * real k) * 0.5 + 0 * 100) = 1"
proof -
  have "(pi + 4 * pi * real k) * 0.5 + 0 * 100 = pi / 2 + 2 * real k * pi" by simp
  then show ?thesis by (simp only: sin_add sin_pi_half cos_pi_half sin_2npi cos_2npi)
qed

lemma peak_run:
  "\<exists>pts'. runFrames (hd CELESTIAL_BODIES) 1 restSet (peakFrames n) (Some restPoints) = Some pts'
     \<and> length (position_array pts') = 3 * count
     \<and> position_array pts' ! 0 = 0.164 * (1 - 0.92 ^ n)"
proof (induction n)
  case 0
  then show ?case by (simp add: runFrames_def peakFrames_def restPoints_def count_def)
next
  case (Suc n)
  then obtain pts1 where run: "runFrames (hd CELESTIAL_BODIES) 1 restSet (peakFrames n) (Some restPoints) = Some pts1"
    and len: "length (position_array pts1) = 3 * count"
    and val: "position_array pts1 ! 0 = 0.164 * (1 - 0.92 ^ n)"
    by auto
  have frames: "peakFrames (Suc n) = peakFrames n @ [(pi + 4 * pi * real n, 4 * pi, 0, 0)]"
    by (simp add: peakFrames_def)
  have osc: "oscillation restSet (pi + 4 * pi * real n) 0 = 1"
    using sin_peak [of n] count_pos by (simp add: oscillation_def restSet_def)
  have blend: "blendTarget 1 restSet 0 = 0"
    using count_pos by (simp add: blendTarget_def restSet_def)
  have ni: "noiseIntensity (type (hd CELESTIAL_BODIES)) 1 = 0.82"
    by (simp add: noiseIntensity_def)
  from useFrame_entry [OF len count_pos, of "hd CELESTIAL_BODIES" 1 restSet "pi + 4 * pi * real n" "4 * pi" 0 0]
  obtain pts' where one: "useFrame (hd CELESTIAL_BODIES) 1 restSet (pi + 4 * pi * real n, 4 * pi, 0, 0) (Some pts1) = Some pts'"
    and len': "length (position_array pts') = 3 * count"
    and val': "position_array pts' ! 0 = position_array pts1 ! 0
                 + (0 + 1 * 0.82 * 0.2 - position_array pts1 ! 0) * lerpSpeed"
    unfolding osc blend ni by auto
  have "position_array pts' ! 0 = 0.164 * (1 - 0.92 ^ Suc n)"
    unfolding val' val by (simp add: lerpSpeed_def field_simps)
  moreover have "runFrames (hd CELESTIAL_BODIES) 1 restSet (peakFrames (Suc n)) (Some restPoints) = Some pts'"
    using run one by (simp add: runFrames_def frames)
  ultimately show ?case using len' by blast
qed

theorem livePosition_keeps_oscillating:
  "\<not> (\<forall>eps>0. \<exists>K. \<forall>n\<ge>K.
        \<exists>pts'. runFrames (hd CELESTIAL_BODIES) 1 restSet (peakFrames n) (Some restPoints) = Some pts'
          \<and> \<bar>position_array pts' ! 0 - initialPositions restSet ! 0\<bar> < eps)"
proof
  assume "\<forall>eps>0. \<exists>K. \<forall>n\<ge>K.
        \<exists>pts'. runFrames (hd CELESTIAL_BODIES) 1 restSet (peakFrames n) (Some restPoints) = Some pts'
          \<and> \<bar>position_array pts' ! 0 - initialPositions restSet ! 0\<bar> < eps"
  moreover have "(0::real) < 0.01" by simp
  ultimately obtain K where K: "\<forall>n\<ge>K.
        \<exists>pts'. runFrames (hd CELESTIAL_BODIES) 1 restSet (peakFrames n) (Some restPoints) = Some pts'
          \<and> \<bar>position_array pts' ! 0 - initialPositions restSet ! 0\<bar> < 0.01"
    by blast
  let ?n = "Suc K"
  from K obtain pts' where run: "runFrames (hd CELESTIAL_BODIES) 1 restSet (peakFrames ?n) (Some restPoints) = Some pts'"
    and near: "\<bar>position_array pts' ! 0 - initialPositions restSet ! 0\<bar> < 0.01"
    by (meson le_Suc_eq order_refl)
  from peak_run [of ?n] run have val: "position_array pts' ! 0 = 0.164 * (1 - 0.92 ^ ?n)"
    by auto
  have init: "initialPositions restSet ! 0 = 0"
    using count_pos by (simp add: restSet_def)
  have "(0.92::real) ^ ?n \<le> 0.92 ^ 1"
    by (rule power_decreasing) simp_all
  then have "0.164 * (1 - 0.92 ^ ?n) \<ge> (0.01312::real)" by simp
  with near val init show False by simp
qed

section \<open>The particle generator: stores, palettes and single particles\<close>

lemma getSafeColor_newColor:
  "getSafeColor P idx s = newColor (sampledValue P idx s) s"
  using getSafeColor_nonempty [of P idx s]
  by (cases "P = []") (simp_all add: getSafeColor_def sampledValue_def clone_def)

lemma extends_refl: "extends s s"
  by (simp add: extends_def)

lemma extends_trans: "extends s s' \<Longrightarrow> extends s' s'' \<Longrightarrow> extends s s''"
  by (auto simp: extends_def)

lemmas prim_defs = random_def newColor_def clone_def addScalar_def multiplyScalar_def lerp_def
  setColor_def setTarget_def newColorFrom_def getSafeColor_newColor

lemma ringParticle_extends: "extends s (ringParticle rnd bodyConfig ringPalette i s)"
  by (simp add: ringParticle_def prim_defs Let_def extends_def)

lemma earthSurface_extends: "extends s (snd (earthSurface rnd bodyColors rr tx ty tz s))"
  by (simp add: earthSurface_def prim_defs Let_def extends_def split: option.split)

lemma earthSurface_nextRef:
  "n \<le> nextRef s \<Longrightarrow> n \<le> nextRef (snd (earthSurface rnd bodyColors rr tx ty tz s))"
  using earthSurface_extends [of s rnd bodyColors rr tx ty tz] by (simp add: extends_def)

lemma earthSurface_cells:
  "x < nextRef s \<Longrightarrow> cells (snd (earthSurface rnd bodyColors rr tx ty tz s)) x = cells s x"
  using earthSurface_extends [of s rnd bodyColors rr tx ty tz] by (simp add: extends_def)

lemma earthSurface_draws:
  "n \<le> draws s \<Longrightarrow> n \<le> draws (snd (earthSurface rnd bodyColors rr tx ty tz s))"
  using earthSurface_extends [of s rnd bodyColors rr tx ty tz] by (simp add: extends_def)

lemma bodyParticle_extends: "extends s (bodyParticle rnd bodyConfig bodyColors i s)"
  by (simp add: bodyParticle_def prim_defs Let_def extends_def split_def
        earthSurface_nextRef earthSurface_cells earthSurface_draws)

lemma singlePlanetParticle_extends:
  "extends s (singlePlanetParticle rnd bodyConfig bodyColors ringPalette i s)"
  by (simp add: singlePlanetParticle_def ringParticle_extends bodyParticle_extends)

lemma fold_extends:
  assumes "\<And>i s. extends s (f i s)"
  shows "extends s (fold f xs s)"
proof (induction xs arbitrary: s)
  case Nil
  show ?case by (simp add: extends_refl)
next
  case (Cons i xs)
  have "extends s (f i s)" by (rule assms)
  moreover have "extends (f i s) (fold f xs (f i s))" by (rule Cons.IH)
  ultimately show ?case by (simp add: extends_trans)
qed

lemma singlePlanetLoop_extends:
  "extends s (singlePlanetLoop rnd bodyConfig bodyColors ringPalette s)"
  unfolding singlePlanetLoop_def by (rule fold_extends) (rule singlePlanetParticle_extends)

lemma explosionParticle_extends: "extends s (explosionParticle rnd i s)"
  by (simp add: explosionParticle_def prim_defs Let_def extends_def)

text \<open>The solar system loops carry the running index with the state.\<close>

lemma fold_extends_snd:
  assumes "\<And>i cs. extends (snd cs) (snd (f i cs))"
  shows "extends (snd cs) (snd (fold f xs cs))"
proof (induction xs arbitrary: cs)
  case Nil
  show ?case by (simp add: extends_refl)
next
  case (Cons i xs)
  have "extends (snd cs) (snd (f i cs))" by (rule assms)
  moreover have "extends (snd (f i cs)) (snd (fold f xs (f i cs)))" by (rule Cons.IH)
  ultimately show ?case by (simp add: extends_trans)
qed

lemma sunParticle_extends: "extends (snd cs) (snd (sunParticle rnd sunColors i cs))"
  by (cases cs) (simp add: sunParticle_def prim_defs Let_def extends_def)

lemma orbitParticle_extends:
  "extends (snd cs) (snd (orbitParticle rnd orbitColor rr particlesInRing j cs))"
  by (cases cs) (simp add: orbitParticle_def prim_defs Let_def extends_def)

lemma orbitRing_extends:
  "extends (snd cs) (snd (orbitRing rnd orbitColor radii orbitCount rIdx cs))"
  unfolding orbitRing_def Let_def by (rule fold_extends_snd) (rule orbitParticle_extends)

lemma asteroidParticle_extends:
  "extends (snd cs) (snd (asteroidParticle rnd asteroidColor i cs))"
  by (cases cs) (simp add: asteroidParticle_def prim_defs Let_def extends_def)

lemma planetParticle_extends:
  "extends (snd cs) (snd (planetParticle rnd planet pColors pRingColors cx cz particlesPerPlanet k cs))"
  by (cases cs) (simp add: planetParticle_def prim_defs Let_def extends_def)

lemma forUntilFull_extends:
  assumes "\<And>k cs. extends (snd cs) (snd (body k cs))"
  shows "extends (snd cs) (snd (forUntilFull body ks cs))"
proof (induction ks arbitrary: cs)
  case Nil
  show ?case by (simp add: extends_refl)
next
  case (Cons k ks)
  have "extends (snd cs) (snd (body k cs))" by (rule assms)
  moreover have "extends (snd (body k cs)) (snd (forUntilFull body ks (body k cs)))" by (rule Cons.IH)
  ultimately show ?case by (auto simp: extends_refl intro: extends_trans)
qed

lemma newColors_nextRef: "nextRef (snd (newColors cs s)) = nextRef s + length cs"
  by (induction cs arbitrary: s) (simp_all add: split_def Let_def newColor_def)

lemma newColors_fst: "fst (newColors cs s) = [nextRef s..<nextRef s + length cs]"
  by (induction cs arbitrary: s)
     (simp_all add: split_def Let_def newColor_def upt_conv_Cons del: upt_Suc)

lemma newColors_length: "length (fst (newColors cs s)) = length cs"
  by (simp add: newColors_fst)

lemma newColors_buffers:
  "draws (snd (newColors cs s)) = draws s \<and> initPos (snd (newColors cs s)) = initPos s
   \<and> targetPos (snd (newColors cs s)) = targetPos s \<and> cols (snd (newColors cs s)) = cols s
   \<and> rands (snd (newColors cs s)) = rands s"
  by (induction cs arbitrary: s) (simp_all add: split_def Let_def newColor_def)

lemma newColors_extends: "extends s (snd (newColors cs s))"
proof (induction cs arbitrary: s)
  case Nil
  show ?case by (simp add: extends_refl)
next
  case (Cons c cs)
  have "extends s (snd (newColor c s))" by (simp add: extends_def newColor_def)
  moreover have "extends (snd (newColor c s)) (snd (newColors cs (snd (newColor c s))))"
    by (rule Cons.IH)
  ultimately have "extends s (snd (newColors cs (snd (newColor c s))))"
    by (rule extends_trans)
  then show ?case by (simp add: split_def Let_def)
qed

lemma newColors_cells:
  "k < length cs \<Longrightarrow> cells (snd (newColors cs s)) (nextRef s + k) = cs ! k"
proof (induction cs arbitrary: s k)
  case Nil
  then show ?case by simp
next
  case (Cons c cs)
  let ?s1 = "snd (newColor c s)"
  have s1: "nextRef ?s1 = Suc (nextRef s)" "cells ?s1 (nextRef s) = c"
    by (simp_all add: newColor_def)
  have unfold: "snd (newColors (c # cs) s) = snd (newColors cs ?s1)"
    by (simp add: split_def Let_def)
  show ?case
  proof (cases k)
    case 0
    have "cells (snd (newColors cs ?s1)) (nextRef s) = cells ?s1 (nextRef s)"
      using newColors_extends [of ?s1 cs] by (simp add: extends_def s1)
    with 0 show ?thesis by (simp del: newColors.simps add: unfold s1)
  next
    case (Suc k')
    with Cons.prems have "k' < length cs" by simp
    from Cons.IH [OF this, of ?s1] Suc show ?thesis by (simp del: newColors.simps add: unfold s1)
  qed
qed

lemma newColors_intact: "intact (fst (newColors cs s)) cs (snd (newColors cs s))"
  by (simp add: intact_def newColors_fst newColors_nextRef newColors_cells)

lemma intact_extends: "intact P vals s \<Longrightarrow> extends s s' \<Longrightarrow> intact P vals s'"
  by (auto simp: intact_def extends_def)

lemma intact_values: "intact P vals s \<Longrightarrow> map (cells s) P = vals"
  by (auto simp: intact_def list_eq_iff_nth_eq)

lemma fold_upt_post:
  assumes "I 0 s0"
    and "\<And>i s. i < n \<Longrightarrow> I i s \<Longrightarrow> I (Suc i) (f i s) \<and> Q i (f i s)"
    and "\<And>i j s. i < j \<Longrightarrow> j < n \<Longrightarrow> I j s \<Longrightarrow> Q i s \<Longrightarrow> Q i (f j s)"
  shows "I n (fold f [0..<n] s0) \<and> (\<forall>i<n. Q i (fold f [0..<n] s0))"
proof -
  have "m \<le> n \<Longrightarrow> I m (fold f [0..<m] s0) \<and> (\<forall>i<m. Q i (fold f [0..<m] s0))" for m
  proof (induction m)
    case 0
    with assms(1) show ?case by simp
  next
    case (Suc m)
    then have m: "m < n" and I: "I m (fold f [0..<m] s0)"
      and Q: "\<forall>i<m. Q i (fold f [0..<m] s0)"
      by simp_all
    have step: "fold f [0..<Suc m] s0 = f m (fold f [0..<m] s0)" by simp
    from assms(2) [OF m I] have new: "I (Suc m) (f m (fold f [0..<m] s0))"
      and own: "Q m (f m (fold f [0..<m] s0))" by simp_all
    have "Q i (f m (fold f [0..<m] s0))" if "i < Suc m" for i
    proof (cases "i = m")
      case True
      with own show ?thesis by simp
    next
      case False
      with that have "i < m" by simp
      with Q have "Q i (fold f [0..<m] s0)" by simp
      from assms(3) [OF \<open>i < m\<close> m I this] show ?thesis .
    qed
    with new show ?case by (simp only: step) simp
  qed
  then show ?thesis by simp
qed

lemma earthSurface_buffers:
  "targetPos (snd (earthSurface rnd bodyColors rr tx ty tz s)) = targetPos s
   \<and> cols (snd (earthSurface rnd bodyColors rr tx ty tz s)) = cols s
   \<and> initPos (snd (earthSurface rnd bodyColors rr tx ty tz s)) = initPos s
   \<and> rands (snd (earthSurface rnd bodyColors rr tx ty tz s)) = rands s"
  by (simp add: earthSurface_def prim_defs Let_def split: option.split)

lemma singlePlanetParticle_lengths:
  "length (targetPos (singlePlanetParticle rnd bodyConfig bodyColors ringPalette i s))
     = length (targetPos s)
   \<and> length (cols (singlePlanetParticle rnd bodyConfig bodyColors ringPalette i s))
     = length (cols s)"
  by (simp add: singlePlanetParticle_def ringParticle_def bodyParticle_def prim_defs Let_def
        split_def earthSurface_buffers)

lemma singlePlanetParticle_other:
  assumes "j \<noteq> i"
  shows "block (targetPos (singlePlanetParticle rnd bodyConfig bodyColors ringPalette j s)) i
           = block (targetPos s) i
       \<and> block (cols (singlePlanetParticle rnd bodyConfig bodyColors ringPalette j s)) i
           = block (cols s) i"
proof -
  from assms have "i * 3 \<noteq> j * 3" "i * 3 \<noteq> j * 3 + 1" "i * 3 \<noteq> j * 3 + 2"
    "i * 3 + 1 \<noteq> j * 3" "i * 3 + 1 \<noteq> j * 3 + 1" "i * 3 + 1 \<noteq> j * 3 + 2"
    "i * 3 + 2 \<noteq> j * 3" "i * 3 + 2 \<noteq> j * 3 + 1" "i * 3 + 2 \<noteq> j * 3 + 2"
    by presburger+
  then show ?thesis
    by (simp add: block_def singlePlanetParticle_def ringParticle_def bodyParticle_def prim_defs
          Let_def split_def earthSurface_buffers)
qed

lemma ringParticle_target:
  assumes "i * 3 + 2 < length (targetPos s)"
  shows "block (targetPos (ringParticle rnd bodyConfig ringPalette i s)) i =
           ((radius bodyConfig * 1.3
               + rnd (draws s) * (radius bodyConfig * 2.2 - radius bodyConfig * 1.3))
              * cos (rnd (Suc (draws s)) * pi * 2),
            (rnd (Suc (Suc (draws s))) - 0.5) * 0.05,
            (radius bodyConfig * 1.3
               + rnd (draws s) * (radius bodyConfig * 2.2 - radius bodyConfig * 1.3))
              * sin (rnd (Suc (draws s)) * pi * 2))"
  using assms by (simp add: block_def ringParticle_def prim_defs Let_def)

lemma radialDistance_polar: "0 \<le> rr \<Longrightarrow> radialDistance (rr * cos t) (rr * sin t) = rr"
proof -
  assume "0 \<le> rr"
  have "(rr * cos t)\<^sup>2 + (rr * sin t)\<^sup>2 = rr\<^sup>2"
    using sin_cos_squared_add [of t] by algebra
  then show ?thesis using \<open>0 \<le> rr\<close> by (simp add: radialDistance_def)
qed

lemma euclideanNorm_spherical:
  "0 \<le> rr \<Longrightarrow>
   euclideanNorm (rr * sin p * cos t) (rr * cos p) (rr * sin p * sin t) = rr"
proof -
  assume "0 \<le> rr"
  have "(rr * sin p * cos t)\<^sup>2 + (rr * cos p)\<^sup>2 + (rr * sin p * sin t)\<^sup>2 = rr\<^sup>2"
    using sin_cos_squared_add [of t] sin_cos_squared_add [of p] by algebra
  then show ?thesis using \<open>0 \<le> rr\<close> by (simp add: euclideanNorm_def)
qed

lemma annulus_radius:
  fixes rad u :: real
  assumes "0 \<le> rad" and "0 \<le> u" and "u < 1"
  shows "rad * 1.3 \<le> rad * 1.3 + u * (rad * 2.2 - rad * 1.3)"
    and "rad * 1.3 + u * (rad * 2.2 - rad * 1.3) \<le> rad * 2.2"
proof -
  have d: "rad * 2.2 - rad * 1.3 = rad * 0.9" by simp
  have lo: "0 \<le> u * (rad * 0.9)" using assms by simp
  have "u * (rad * 0.9) \<le> 1 * (rad * 0.9)"
    using assms by (intro mult_right_mono) simp_all
  then have hi: "u * (rad * 0.9) \<le> rad * 2.2 - rad * 1.3" by (simp only: d mult_1)
  show "rad * 1.3 \<le> rad * 1.3 + u * (rad * 2.2 - rad * 1.3)"
    unfolding d using lo by linarith
  show "rad * 1.3 + u * (rad * 2.2 - rad * 1.3) \<le> rad * 2.2"
    using hi unfolding d by linarith
qed

lemma ringParticle_inAnnulus:
  assumes "i * 3 + 2 < length (targetPos s)" and "0 \<le> radius bodyConfig"
    and "\<forall>k. 0 \<le> rnd k \<and> rnd k < 1"
  shows "inAnnulus (radius bodyConfig)
           (block (targetPos (ringParticle rnd bodyConfig ringPalette i s)) i)"
proof -
  let ?rr = "radius bodyConfig * 1.3
               + rnd (draws s) * (radius bodyConfig * 2.2 - radius bodyConfig * 1.3)"
  from assms(3) have u: "0 \<le> rnd (draws s)" "rnd (draws s) < 1" by simp_all
  note b = annulus_radius [OF assms(2) u]
  from b(1) assms(2) have pos: "0 \<le> ?rr" by simp
  from assms(3) have "0 \<le> rnd (Suc (Suc (draws s)))" "rnd (Suc (Suc (draws s))) < 1"
    by simp_all
  then have y: "\<bar>(rnd (Suc (Suc (draws s))) - 0.5) * 0.05\<bar> \<le> 0.05"
    by (simp add: abs_le_iff)
  have R: "radialDistance (?rr * cos (rnd (Suc (draws s)) * pi * 2))
             (?rr * sin (rnd (Suc (draws s)) * pi * 2)) = ?rr"
    by (rule radialDistance_polar [OF pos])
  show ?thesis
    unfolding ringParticle_target [OF assms(1)] inAnnulus_def prod.case R
    using b y by (intro conjI)
qed

lemma spec_index_less: "0 < len \<Longrightarrow> spec_index len idx < len"
proof -
  assume len: "0 < len"
  from safeIndex_range [OF len, of idx] have "nat (safeIndex len idx) < len" by linarith
  with safeIndex_spec [OF len, of idx] show ?thesis by simp
qed

lemma ringParticle_cols_empty:
  assumes "i * 3 + 2 < length (cols s)"
  shows "block (cols (ringParticle rnd bodyConfig [] i s)) i \<in> {(1, 1, 1), (0.2, 0.2, 0.2)}"
  using assms
  by (simp add: block_def ringParticle_def prim_defs Let_def sampledValue_def white_def)

lemma bodyParticle_generic_target:
  assumes "name bodyConfig \<notin> {''Earth'', ''Jupiter'', ''Saturn'', ''Mars''}"
    and "i * 3 + 2 < length (targetPos s)"
  shows "block (targetPos (bodyParticle rnd bodyConfig bodyColors i s)) i =
           (radius bodyConfig * sin (arccos (2 * rnd (Suc (draws s)) - 1))
               * cos (rnd (draws s) * pi * 2),
            radius bodyConfig * cos (arccos (2 * rnd (Suc (draws s)) - 1)),
            radius bodyConfig * sin (arccos (2 * rnd (Suc (draws s)) - 1))
               * sin (rnd (draws s) * pi * 2))"
  using assms by (simp add: block_def bodyParticle_def prim_defs Let_def)

lemma bodyParticle_generic_cols:
  assumes "name bodyConfig \<notin> {''Earth'', ''Jupiter'', ''Saturn'', ''Mars''}"
    and "i * 3 + 2 < length (cols s)" and "intact bodyColors vals s" and "vals \<noteq> []"
  shows "\<exists>k<length vals. block (cols (bodyParticle rnd bodyConfig bodyColors i s)) i =
           (r (vals ! k), g (vals ! k), b (vals ! k))"
proof -
  let ?n = "noise (radius bodyConfig * sin (arccos (2 * rnd (Suc (draws s)) - 1))
               * cos (rnd (draws s) * pi * 2))
            (radius bodyConfig * cos (arccos (2 * rnd (Suc (draws s)) - 1)))
            (radius bodyConfig * sin (arccos (2 * rnd (Suc (draws s)) - 1))
               * sin (rnd (draws s) * pi * 2))"
  let ?idx = "Finite (max 0 (min 1 ((?n + 1.5) / 3)) * real (length bodyColors))"
  let ?k = "spec_index (length bodyColors) ?idx"
  from assms(3,4) have ne: "bodyColors \<noteq> []" and len: "length bodyColors = length vals"
    by (auto simp: intact_def)
  from ne have k: "?k < length bodyColors"
    by (intro spec_index_less) simp
  with assms(3) have old: "bodyColors ! ?k < nextRef s" and val: "cells s (bodyColors ! ?k) = vals ! ?k"
    by (simp_all add: intact_def)
  have "block (cols (bodyParticle rnd bodyConfig bodyColors i s)) i =
           (r (vals ! ?k), g (vals ! ?k), b (vals ! ?k))"
    using assms(1,2) ne old val
    by (simp add: block_def bodyParticle_def prim_defs Let_def sampledValue_def)
  with k len show ?thesis by auto
qed

section \<open>The particle generator: the loops\<close>

lemma newPalettes_effect:
  "intact (fst (fst (newPalettes mkColor bodyConfig s))) (map mkColor (colors bodyConfig))
     (snd (newPalettes mkColor bodyConfig s))
   \<and> intact (snd (fst (newPalettes mkColor bodyConfig s))) (map mkColor (ringStrings bodyConfig))
     (snd (newPalettes mkColor bodyConfig s))
   \<and> extends s (snd (newPalettes mkColor bodyConfig s))
   \<and> draws (snd (newPalettes mkColor bodyConfig s)) = draws s
   \<and> initPos (snd (newPalettes mkColor bodyConfig s)) = initPos s
   \<and> targetPos (snd (newPalettes mkColor bodyConfig s)) = targetPos s
   \<and> cols (snd (newPalettes mkColor bodyConfig s)) = cols s
   \<and> rands (snd (newPalettes mkColor bodyConfig s)) = rands s"
proof -
  let ?b = "newColors (map mkColor (colors bodyConfig)) s"
  have b: "intact (fst ?b) (map mkColor (colors bodyConfig)) (snd ?b)" by (rule newColors_intact)
  show ?thesis
  proof (cases "ringColors bodyConfig")
    case None
    then have eq: "newPalettes mkColor bodyConfig s = ((fst ?b, []), snd ?b)"
      by (simp add: newPalettes_def split_def Let_def)
    show ?thesis
      unfolding eq using b None newColors_buffers [of "map mkColor (colors bodyConfig)" s]
        newColors_extends [of s "map mkColor (colors bodyConfig)"]
      by (simp add: ringStrings_def intact_def)
  next
    case (Some cs)
    let ?r = "newColors (map mkColor cs) (snd ?b)"
    from Some have eq: "newPalettes mkColor bodyConfig s = ((fst ?b, fst ?r), snd ?r)"
      by (simp add: newPalettes_def split_def Let_def)
    have e: "extends (snd ?b) (snd ?r)" by (rule newColors_extends)
    have "intact (fst ?b) (map mkColor (colors bodyConfig)) (snd ?r)"
      using b e by (rule intact_extends)
    moreover have "intact (fst ?r) (map mkColor cs) (snd ?r)" by (rule newColors_intact)
    moreover have "extends s (snd ?r)"
      using newColors_extends [of s "map mkColor (colors bodyConfig)"] e by (rule extends_trans)
    ultimately show ?thesis
      unfolding eq using Some newColors_buffers [of "map mkColor (colors bodyConfig)" s]
        newColors_buffers [of "map mkColor cs" "snd ?b"]
      by (simp add: ringStrings_def)
  qed
qed

lemma newPalettes_refs:
  "nextRef s = nextRef s' \<Longrightarrow> fst (newPalettes mkColor bodyConfig s) = fst (newPalettes mkColor bodyConfig s')"
  by (simp add: newPalettes_def split_def Let_def newColors_fst newColors_nextRef split: option.split)

text \<open>
  The single planet loop: what every loop body establishes for its own particle holds for
  all particles at the end, the palettes being intact all along.
\<close>

lemma singlePlanetLoop_blocks:
  assumes len: "length (targetPos s) = count * 3" "length (cols s) = count * 3"
    and pal: "intact bodyColors vals s" "intact ringPalette rvals s"
    and own: "\<And>i s'. i < count \<Longrightarrow> length (targetPos s') = count * 3 \<Longrightarrow> length (cols s') = count * 3
           \<Longrightarrow> intact bodyColors vals s' \<Longrightarrow> intact ringPalette rvals s'
           \<Longrightarrow> P i (block (targetPos (singlePlanetParticle rnd bodyConfig bodyColors ringPalette i s')) i)
                    (block (cols (singlePlanetParticle rnd bodyConfig bodyColors ringPalette i s')) i)"
  shows "\<forall>i<count. P i (block (targetPos (singlePlanetLoop rnd bodyConfig bodyColors ringPalette s)) i)
                       (block (cols (singlePlanetLoop rnd bodyConfig bodyColors ringPalette s)) i)"
proof -
  let ?step = "singlePlanetParticle rnd bodyConfig bodyColors ringPalette"
  let ?I = "\<lambda>(j::nat) s'. length (targetPos s') = count * 3 \<and> length (cols s') = count * 3
              \<and> intact bodyColors vals s' \<and> intact ringPalette rvals s'"
  let ?Q = "\<lambda>i s'. P i (block (targetPos s') i) (block (cols s') i)"
  have "?I count (fold ?step [0..<count] s) \<and> (\<forall>i<count. ?Q i (fold ?step [0..<count] s))"
  proof (rule fold_upt_post [where I = ?I and Q = ?Q])
    show "?I 0 s" using len pal by simp
  next
    fix i s' assume i: "i < count" and I: "?I i s'"
    have e: "extends s' (?step i s')" by (rule singlePlanetParticle_extends)
    from I e have "intact bodyColors vals (?step i s')" "intact ringPalette rvals (?step i s')"
      by (auto intro: intact_extends)
    moreover from I have "length (targetPos (?step i s')) = count * 3"
      "length (cols (?step i s')) = count * 3"
      by (simp_all add: singlePlanetParticle_lengths)
    moreover from own [OF i] I have "?Q i (?step i s')" by simp
    ultimately show "?I (Suc i) (?step i s') \<and> ?Q i (?step i s')" by simp
  next
    fix i j s' assume "i < j" and "j < count" and "?I j s'" and Q: "?Q i s'"
    from \<open>i < j\<close> have "j \<noteq> i" by simp
    from singlePlanetParticle_other [OF this, of rnd bodyConfig bodyColors ringPalette s'] Q
    show "?Q i (?step j s')" by simp
  qed
  then show ?thesis by (simp add: singlePlanetLoop_def)
qed

subsection \<open>The origin cloud and the seeds\<close>

lemma explosionParticle_effect:
  "targetPos (explosionParticle rnd i s) = targetPos s
   \<and> cols (explosionParticle rnd i s) = cols s
   \<and> length (initPos (explosionParticle rnd i s)) = length (initPos s)
   \<and> length (rands (explosionParticle rnd i s)) = length (rands s)
   \<and> draws (explosionParticle rnd i s) = draws s + 6"
  by (simp add: explosionParticle_def prim_defs Let_def)

lemma explosionParticle_other:
  assumes "j \<noteq> i"
  shows "block (initPos (explosionParticle rnd j s)) i = block (initPos s) i
       \<and> block (rands (explosionParticle rnd j s)) i = block (rands s) i"
proof -
  from assms have "i * 3 \<noteq> j * 3" "i * 3 \<noteq> j * 3 + 1" "i * 3 \<noteq> j * 3 + 2"
    "i * 3 + 1 \<noteq> j * 3" "i * 3 + 1 \<noteq> j * 3 + 1" "i * 3 + 1 \<noteq> j * 3 + 2"
    "i * 3 + 2 \<noteq> j * 3" "i * 3 + 2 \<noteq> j * 3 + 1" "i * 3 + 2 \<noteq> j * 3 + 2"
    by presburger+
  then show ?thesis
    by (simp add: block_def explosionParticle_def prim_defs Let_def)
qed

text \<open>The origin position and the seed of a particle, from the six draws that start at \<open>d\<close>.\<close>

lemma explosionParticle_own:
  assumes "i * 3 + 2 < length (initPos s)" and "i * 3 + 2 < length (rands s)"
  shows "block (initPos (explosionParticle rnd i s)) i = originOf rnd (draws s)
       \<and> block (rands (explosionParticle rnd i s)) i = seedOf rnd (draws s)"
proof -
  have e: "draws s + 1 = Suc (draws s)" "draws s + 2 = Suc (Suc (draws s))"
    "draws s + 3 = Suc (Suc (Suc (draws s)))" "draws s + 4 = Suc (Suc (Suc (Suc (draws s))))"
    "draws s + 5 = Suc (Suc (Suc (Suc (Suc (draws s)))))"
    by simp_all
  show ?thesis
    unfolding originOf_def seedOf_def e using assms
    by (simp add: block_def explosionParticle_def prim_defs Let_def)
qed

lemma explosion_loop:
  assumes "length (initPos s) = count * 3" and "length (rands s) = count * 3"
  shows "draws (fold (explosionParticle rnd) [0..<count] s) = draws s + 6 * count
       \<and> targetPos (fold (explosionParticle rnd) [0..<count] s) = targetPos s
       \<and> cols (fold (explosionParticle rnd) [0..<count] s) = cols s
       \<and> (\<forall>i<count. block (initPos (fold (explosionParticle rnd) [0..<count] s)) i
                         = originOf rnd (draws s + 6 * i)
                     \<and> block (rands (fold (explosionParticle rnd) [0..<count] s)) i
                         = seedOf rnd (draws s + 6 * i))"
proof -
  let ?I = "\<lambda>j s'. draws s' = draws s + 6 * j \<and> targetPos s' = targetPos s \<and> cols s' = cols s
              \<and> length (initPos s') = count * 3 \<and> length (rands s') = count * 3"
  let ?Q = "\<lambda>i s'. block (initPos s') i = originOf rnd (draws s + 6 * i)
              \<and> block (rands s') i = seedOf rnd (draws s + 6 * i)"
  have "?I count (fold (explosionParticle rnd) [0..<count] s)
        \<and> (\<forall>i<count. ?Q i (fold (explosionParticle rnd) [0..<count] s))"
  proof (rule fold_upt_post [where I = ?I and Q = ?Q])
    show "?I 0 s" using assms by simp
  next
    fix i and s' :: gen_state assume i: "i < count" and I: "?I i s'"
    from i I have "i * 3 + 2 < length (initPos s')" "i * 3 + 2 < length (rands s')" by simp_all
    from explosionParticle_own [OF this, of rnd] explosionParticle_effect [of rnd i s'] I
    show "?I (Suc i) (explosionParticle rnd i s') \<and> ?Q i (explosionParticle rnd i s')"
      by simp
  next
    fix i j and s' :: gen_state assume "i < j" and "j < count" and "?I j s'" and Q: "?Q i s'"
    from \<open>i < j\<close> have "j \<noteq> i" by simp
    from explosionParticle_other [OF this, of rnd s'] Q
    show "?Q i (explosionParticle rnd j s')" by simp
  qed
  then show ?thesis by simp
qed

subsection \<open>The whole generation\<close>

lemma explosion_loop_extends: "extends s (fold (explosionParticle rnd) xs s)"
  by (rule fold_extends) (rule explosionParticle_extends)

lemma planetParticles_extends:
  "extends (snd cs) (snd (planetParticles mkColor rnd planetList radii particlesPerPlanet p cs))"
proof (cases cs)
  case (Pair currentIdx s)
  let ?planet = "planetList ! p"
  let ?pal = "newPalettes mkColor ?planet s"
  have a: "extends s (snd ?pal)" using newPalettes_effect [of mkColor ?planet s] by simp
  have "extends (snd (currentIdx, snd ?pal))
          (snd (forUntilFull (planetParticle rnd ?planet (fst (fst ?pal)) (snd (fst ?pal))
                  (radii ! (p mod length radii) * cos (js_rem (real p * 2.5) (pi * 2)))
                  (radii ! (p mod length radii) * sin (js_rem (real p * 2.5) (pi * 2)))
                  particlesPerPlanet)
                [0..<particlesPerPlanet] (currentIdx, snd ?pal)))"
    by (rule forUntilFull_extends) (rule planetParticle_extends)
  with a show ?thesis
    unfolding Pair planetParticles_def
    by (simp add: Let_def split_def) (erule extends_trans, simp)
qed

lemma solarSystemLoops_extends:
  "extends s (solarSystemLoops mkColor rnd sunColors orbitColor asteroidColor s)"
proof -
  let ?radii = "[6, 8, 10, 11, 14, 20, 26, 32, 38, 44] :: real list"
  let ?planetList = "filter (\<lambda>b. name b \<noteq> ''Sun'') CELESTIAL_BODIES"
  let ?c0 = "(0::nat, s)"
  let ?c1 = "fold (sunParticle rnd sunColors) [0..<20000] ?c0"
  let ?c2 = "fold (orbitRing rnd orbitColor ?radii 9000) [0..<length ?radii] ?c1"
  let ?c3 = "fold (asteroidParticle rnd asteroidColor) [0..<8000] ?c2"
  let ?ppp = "nat \<lfloor>real (count - fst ?c3) / real (length ?planetList)\<rfloor>"
  let ?c4 = "fold (planetParticles mkColor rnd ?planetList ?radii ?ppp) [0..<length ?planetList] ?c3"
  let ?end = "fold (\<lambda>currentIdx. setTarget currentIdx 0 0 0) [fst ?c4..<count] (snd ?c4)"
  have 1: "extends s (snd ?c1)"
    using fold_extends_snd [of "sunParticle rnd sunColors" ?c0 "[0..<20000]", OF sunParticle_extends]
    by (simp only: snd_conv)
  have 2: "extends (snd ?c1) (snd ?c2)" by (rule fold_extends_snd) (rule orbitRing_extends)
  have 3: "extends (snd ?c2) (snd ?c3)" by (rule fold_extends_snd) (rule asteroidParticle_extends)
  have 4: "extends (snd ?c3) (snd ?c4)" by (rule fold_extends_snd) (rule planetParticles_extends)
  have 5: "extends (snd ?c4) ?end"
    by (rule fold_extends) (simp add: extends_def setTarget_def)
  have "extends s ?end"
    by (rule extends_trans [OF extends_trans [OF extends_trans [OF extends_trans [OF 1 2] 3] 4] 5])
  moreover have "solarSystemLoops mkColor rnd sunColors orbitColor asteroidColor s = ?end"
    by (simp only: solarSystemLoops_def Let_def)
  ultimately show ?thesis by (simp only:)
qed

lemma solarSystemMode_extends: "extends s (solarSystemMode mkColor rnd bodyConfig s)"
proof -
  let ?a = "newColors (map mkColor (colors bodyConfig)) s"
  let ?b = "newColor (Color 0.2 0.4 0.8) (snd ?a)"
  let ?c = "newColor (Color 0.5 0.5 0.5) (snd ?b)"
  have "extends s (snd ?a)" by (rule newColors_extends)
  moreover have "extends (snd ?a) (snd ?b)" by (simp add: extends_def newColor_def)
  moreover have "extends (snd ?b) (snd ?c)" by (simp add: extends_def newColor_def)
  moreover have "extends (snd ?c) (solarSystemLoops mkColor rnd (fst ?a) (fst ?b) (fst ?c) (snd ?c))"
    by (rule solarSystemLoops_extends)
  ultimately have "extends s (solarSystemLoops mkColor rnd (fst ?a) (fst ?b) (fst ?c) (snd ?c))"
    by (auto intro: extends_trans)
  then show ?thesis by (simp add: solarSystemMode_def Let_def split_def)
qed

lemma singlePlanetMode_extends: "extends s (singlePlanetMode mkColor rnd bodyConfig s)"
proof -
  let ?pal = "newPalettes mkColor bodyConfig s"
  have "extends s (snd ?pal)" using newPalettes_effect [of mkColor bodyConfig s] by simp
  moreover have "extends (snd ?pal)
      (singlePlanetLoop rnd bodyConfig (fst (fst ?pal)) (snd (fst ?pal)) (snd ?pal))"
    by (rule singlePlanetLoop_extends)
  ultimately have "extends s
      (singlePlanetLoop rnd bodyConfig (fst (fst ?pal)) (snd (fst ?pal)) (snd ?pal))"
    by (rule extends_trans)
  then show ?thesis by (simp add: singlePlanetMode_def split_def Let_def)
qed

lemma bodyShape_eq:
  "bodyShape mkColor rnd bodyConfig s =
     (if name bodyConfig = ''Sun'' then solarSystemMode mkColor rnd bodyConfig (freshBuffers s)
      else singlePlanetMode mkColor rnd bodyConfig (freshBuffers s))"
  by (simp add: bodyShape_def Let_def)

lemma bodyShape_extends: "extends s (bodyShape mkColor rnd bodyConfig s)"
proof -
  have "extends s (freshBuffers s)" by (simp add: extends_def freshBuffers_def)
  then show ?thesis
    using solarSystemMode_extends [of "freshBuffers s" mkColor rnd bodyConfig]
      singlePlanetMode_extends [of "freshBuffers s" mkColor rnd bodyConfig]
    by (auto simp: bodyShape_eq intro: extends_trans)
qed

lemma generate_extends: "extends s (generate mkColor rnd bodyConfig s)"
  unfolding generate_def
  using bodyShape_extends explosion_loop_extends by (rule extends_trans)

section \<open>The particle generator: single bodies\<close>

lemma fold_invariant_eq:
  assumes "\<And>i s. h (f i s) = h s"
  shows "h (fold f xs s) = h s"
  by (induction xs arbitrary: s) (simp_all add: assms)

lemma singlePlanetParticle_origin:
  "initPos (singlePlanetParticle rnd bodyConfig bodyColors ringPalette i s) = initPos s
   \<and> rands (singlePlanetParticle rnd bodyConfig bodyColors ringPalette i s) = rands s"
  by (simp add: singlePlanetParticle_def ringParticle_def bodyParticle_def prim_defs Let_def
        split_def earthSurface_buffers)

lemma generate_single_blocks:
  assumes single: "name bodyConfig \<noteq> ''Sun''"
    and own: "\<And>bodyColors ringPalette i s'. i < count \<Longrightarrow> length (targetPos s') = count * 3
           \<Longrightarrow> length (cols s') = count * 3
           \<Longrightarrow> intact bodyColors (map mkColor (colors bodyConfig)) s'
           \<Longrightarrow> intact ringPalette (map mkColor (ringStrings bodyConfig)) s'
           \<Longrightarrow> P i (block (targetPos (singlePlanetParticle rnd bodyConfig bodyColors ringPalette i s')) i)
                    (block (cols (singlePlanetParticle rnd bodyConfig bodyColors ringPalette i s')) i)"
  shows "\<forall>i<count. P i (block (targetPos (generate mkColor rnd bodyConfig s)) i)
                       (block (cols (generate mkColor rnd bodyConfig s)) i)"
proof -
  let ?pal = "newPalettes mkColor bodyConfig (freshBuffers s)"
  let ?loop = "singlePlanetLoop rnd bodyConfig (fst (fst ?pal)) (snd (fst ?pal)) (snd ?pal)"
  note pal = newPalettes_effect [of mkColor bodyConfig "freshBuffers s"]
  have shape: "bodyShape mkColor rnd bodyConfig s = ?loop"
    using single by (simp add: bodyShape_eq singlePlanetMode_def split_def Let_def)
  have len: "length (targetPos (snd ?pal)) = count * 3" "length (cols (snd ?pal)) = count * 3"
    using pal by (simp_all add: freshBuffers_def)
  have blocks: "\<forall>i<count. P i (block (targetPos ?loop) i) (block (cols ?loop) i)"
    using len
  proof (rule singlePlanetLoop_blocks)
    show "intact (fst (fst ?pal)) (map mkColor (colors bodyConfig)) (snd ?pal)" using pal by simp
    show "intact (snd (fst ?pal)) (map mkColor (ringStrings bodyConfig)) (snd ?pal)" using pal by simp
  qed (rule own)
  have "length (initPos ?loop) = count * 3 \<and> length (rands ?loop) = count * 3"
  proof -
    have "initPos ?loop = initPos (snd ?pal)"
      unfolding singlePlanetLoop_def
      by (rule fold_invariant_eq) (simp add: singlePlanetParticle_origin)
    moreover have "rands ?loop = rands (snd ?pal)"
      unfolding singlePlanetLoop_def
      by (rule fold_invariant_eq) (simp add: singlePlanetParticle_origin)
    ultimately have "initPos ?loop = initPos (snd ?pal) \<and> rands ?loop = rands (snd ?pal)" by simp
    with pal show ?thesis by (simp add: freshBuffers_def)
  qed
  then have "targetPos (generate mkColor rnd bodyConfig s) = targetPos ?loop"
    "cols (generate mkColor rnd bodyConfig s) = cols ?loop"
    using explosion_loop [of ?loop rnd] by (simp_all add: generate_def shape)
  with blocks show ?thesis by simp
qed

subsection \<open>Single bodies: the sphere and the ring\<close>

lemma count_split: "nat \<lfloor>real count * 0.35\<rfloor> = 22400" "count = 64000"
  by (simp_all add: count_def)

lemma particle_counts:
  "hasRings bodyConfig \<Longrightarrow> ringParticleCount bodyConfig = 22400"
  "hasRings bodyConfig \<Longrightarrow> bodyParticleCount bodyConfig = 41600"
  "\<not> hasRings bodyConfig \<Longrightarrow> bodyParticleCount bodyConfig = count"
  by (simp_all add: ringParticleCount_def bodyParticleCount_def count_split)

lemma generic_body_blocks:
  assumes "name bodyConfig \<notin> {''Sun'', ''Earth'', ''Jupiter'', ''Saturn'', ''Mars''}"
    and "\<not> hasRings bodyConfig" and "colors bodyConfig \<noteq> []" and "0 \<le> radius bodyConfig"
  shows "\<forall>i<count.
           (case block (targetPos (generate mkColor rnd bodyConfig s)) i of
              (x, y, z) \<Rightarrow> euclideanNorm x y z = radius bodyConfig)
         \<and> (case block (cols (generate mkColor rnd bodyConfig s)) i of
              (cr, cg, cb) \<Rightarrow> Color cr cg cb \<in> set (map mkColor (colors bodyConfig)))"
proof (rule generate_single_blocks [where P = "\<lambda>i tb cb.
           (case tb of (x, y, z) \<Rightarrow> euclideanNorm x y z = radius bodyConfig)
         \<and> (case cb of (cr, cg, cb) \<Rightarrow> Color cr cg cb \<in> set (map mkColor (colors bodyConfig)))"])
  show "name bodyConfig \<noteq> ''Sun''" using assms(1) by simp
next
  fix bodyColors ringPalette i and s' :: gen_state
  assume i: "i < count" and len: "length (targetPos s') = count * 3" "length (cols s') = count * 3"
    and pal: "intact bodyColors (map mkColor (colors bodyConfig)) s'"
  let ?vals = "map mkColor (colors bodyConfig)"
  from assms(1) have generic: "name bodyConfig \<notin> {''Earth'', ''Jupiter'', ''Saturn'', ''Mars''}"
    by simp
  have step: "singlePlanetParticle rnd bodyConfig bodyColors ringPalette i s'
                = bodyParticle rnd bodyConfig bodyColors i s'"
    using assms(2) by (simp add: singlePlanetParticle_def)
  from i len have inT: "i * 3 + 2 < length (targetPos s')" and inC: "i * 3 + 2 < length (cols s')"
    by simp_all
  from assms(3) have ne: "?vals \<noteq> []" by simp
  from bodyParticle_generic_cols [OF generic inC pal ne, of rnd]
  obtain k where k: "k < length ?vals"
    and c: "block (cols (bodyParticle rnd bodyConfig bodyColors i s')) i
              = (r (?vals ! k), g (?vals ! k), b (?vals ! k))"
    by blast
  from k have "?vals ! k \<in> set ?vals" by (rule nth_mem)
  then have "Color (r (?vals ! k)) (g (?vals ! k)) (b (?vals ! k)) \<in> set ?vals" by simp
  then show "(case block (targetPos (singlePlanetParticle rnd bodyConfig bodyColors ringPalette i s')) i of
              (x, y, z) \<Rightarrow> euclideanNorm x y z = radius bodyConfig)
         \<and> (case block (cols (singlePlanetParticle rnd bodyConfig bodyColors ringPalette i s')) i of
              (cr, cg, cb) \<Rightarrow> Color cr cg cb \<in> set (map mkColor (colors bodyConfig)))"
    unfolding step bodyParticle_generic_target [OF generic inT] c prod.case
    using euclideanNorm_spherical [OF assms(4)] by simp
qed

text \<open>
  Claim C6. For the descriptor TestPlanet (radius 2, the palette \<^verbatim>\<open>#000000\<close>, \<^verbatim>\<open>#FFFFFF\<close>, no
  rings, a name without a branch of its own) and draws in \<open>[0, 1)\<close>: the target position
  of every particle has Euclidean norm 2 (exactly, in real arithmetic), and its colour is one
  of the two palette entries.
\<close>

theorem testPlanet_on_sphere:
  assumes "\<forall>k. 0 \<le> rnd k \<and> rnd k < 1" and "i < count"
  shows "(case block (targetPos (generate mkColor rnd testPlanet s)) i of
            (x, y, z) \<Rightarrow> euclideanNorm x y z = 2)
       \<and> (case block (cols (generate mkColor rnd testPlanet s)) i of
            (cr, cg, cb) \<Rightarrow> Color cr cg cb \<in> {mkColor ''#000000'', mkColor ''#FFFFFF''})"
proof -
  have "name testPlanet \<notin> {''Sun'', ''Earth'', ''Jupiter'', ''Saturn'', ''Mars''}"
    "\<not> hasRings testPlanet" "colors testPlanet \<noteq> []" "0 \<le> radius testPlanet"
    by (simp_all add: testPlanet_def)
  from generic_body_blocks [OF this, of mkColor rnd s] assms(2)
  show ?thesis by (simp add: testPlanet_def)
qed

theorem testPlanet_on_sphere_witness:
  "(\<forall>k. 0 \<le> constDraws (1/2) k \<and> constDraws (1/2) k < 1) \<and> (0::nat) < count
   \<and> (case block (targetPos (generate hexColor (constDraws (1/2)) testPlanet initialState)) 0 of
            (x, y, z) \<Rightarrow> euclideanNorm x y z = 2)
   \<and> (case block (cols (generate hexColor (constDraws (1/2)) testPlanet initialState)) 0 of
            (cr, cg, cb) \<Rightarrow> Color cr cg cb \<in> {Color 0 0 0, Color 1 1 1})"
proof -
  have c: "(0::nat) < count" by (simp add: count_def)
  have "hexColor ''#000000'' = Color 0 0 0" "hexColor ''#FFFFFF'' = Color 1 1 1"
    by (simp_all add: hexColor_def hexDigit_def)
  moreover have d: "\<forall>k. 0 \<le> constDraws (1/2) k \<and> constDraws (1/2) k < 1"
    by (simp add: constDraws_def)
  ultimately show ?thesis
    using testPlanet_on_sphere [OF d c, of hexColor initialState] c by simp
qed

lemma ring_blocks:
  assumes "name bodyConfig \<noteq> ''Sun''" and "hasRings bodyConfig" and "0 \<le> radius bodyConfig"
    and "\<forall>k. 0 \<le> rnd k \<and> rnd k < 1"
  shows "\<forall>i<count. bodyParticleCount bodyConfig \<le> i \<longrightarrow>
           inAnnulus (radius bodyConfig) (block (targetPos (generate mkColor rnd bodyConfig s)) i)
         \<and> (\<exists>d. block (targetPos (generate mkColor rnd bodyConfig s)) i =
                  ((radius bodyConfig * 1.3
                      + rnd d * (radius bodyConfig * 2.2 - radius bodyConfig * 1.3))
                     * cos (rnd (Suc d) * pi * 2),
                   (rnd (Suc (Suc d)) - 0.5) * 0.05,
                   (radius bodyConfig * 1.3
                      + rnd d * (radius bodyConfig * 2.2 - radius bodyConfig * 1.3))
                     * sin (rnd (Suc d) * pi * 2)))
         \<and> (ringStrings bodyConfig = [] \<longrightarrow>
              block (cols (generate mkColor rnd bodyConfig s)) i \<in> {(1, 1, 1), (0.2, 0.2, 0.2)})"
proof (rule generate_single_blocks [where P = "\<lambda>i tb cb. bodyParticleCount bodyConfig \<le> i \<longrightarrow>
           inAnnulus (radius bodyConfig) tb
         \<and> (\<exists>d. tb =
                  ((radius bodyConfig * 1.3
                      + rnd d * (radius bodyConfig * 2.2 - radius bodyConfig * 1.3))
                     * cos (rnd (Suc d) * pi * 2),
                   (rnd (Suc (Suc d)) - 0.5) * 0.05,
                   (radius bodyConfig * 1.3
                      + rnd d * (radius bodyConfig * 2.2 - radius bodyConfig * 1.3))
                     * sin (rnd (Suc d) * pi * 2)))
         \<and> (ringStrings bodyConfig = [] \<longrightarrow> cb \<in> {(1, 1, 1), (0.2, 0.2, 0.2)})"])
  show "name bodyConfig \<noteq> ''Sun''" by (rule assms(1))
next
  fix bodyColors ringPalette i and s' :: gen_state
  assume i: "i < count" and len: "length (targetPos s') = count * 3" "length (cols s') = count * 3"
    and pal: "intact ringPalette (map mkColor (ringStrings bodyConfig)) s'"
  from i len have inT: "i * 3 + 2 < length (targetPos s')" and inC: "i * 3 + 2 < length (cols s')"
    by simp_all
  let ?step = "singlePlanetParticle rnd bodyConfig bodyColors ringPalette i s'"
  show "bodyParticleCount bodyConfig \<le> i \<longrightarrow>
           inAnnulus (radius bodyConfig) (block (targetPos ?step) i)
         \<and> (\<exists>d. block (targetPos ?step) i =
                  ((radius bodyConfig * 1.3
                      + rnd d * (radius bodyConfig * 2.2 - radius bodyConfig * 1.3))
                     * cos (rnd (Suc d) * pi * 2),
                   (rnd (Suc (Suc d)) - 0.5) * 0.05,
                   (radius bodyConfig * 1.3
                      + rnd d * (radius bodyConfig * 2.2 - radius bodyConfig * 1.3))
                     * sin (rnd (Suc d) * pi * 2)))
         \<and> (ringStrings bodyConfig = [] \<longrightarrow> block (cols ?step) i \<in> {(1, 1, 1), (0.2, 0.2, 0.2)})"
  proof (intro impI conjI)
    assume ring: "bodyParticleCount bodyConfig \<le> i"
    with assms(2) have step: "?step = ringParticle rnd bodyConfig ringPalette i s'"
      by (simp add: singlePlanetParticle_def)
    show "inAnnulus (radius bodyConfig) (block (targetPos ?step) i)"
      unfolding step by (rule ringParticle_inAnnulus [OF inT assms(3,4)])
    show "\<exists>d. block (targetPos ?step) i =
                  ((radius bodyConfig * 1.3
                      + rnd d * (radius bodyConfig * 2.2 - radius bodyConfig * 1.3))
                     * cos (rnd (Suc d) * pi * 2),
                   (rnd (Suc (Suc d)) - 0.5) * 0.05,
                   (radius bodyConfig * 1.3
                      + rnd d * (radius bodyConfig * 2.2 - radius bodyConfig * 1.3))
                     * sin (rnd (Suc d) * pi * 2))"
      unfolding step ringParticle_target [OF inT] by blast
    assume "ringStrings bodyConfig = []"
    with pal have "ringPalette = []" by (simp add: intact_def)
    then show "block (cols ?step) i \<in> {(1, 1, 1), (0.2, 0.2, 0.2)}"
      unfolding step using ringParticle_cols_empty [OF inC] by simp
  qed
qed

text \<open>
  Claim C7. For a single-body descriptor with rings and radius 3, and draws in \<open>[0, 1)\<close>:
  the target position of every ring particle (the particles from \<open>bodyParticleCount\<close> on)
  has its distance from the axis between \<open>3 * 1.3\<close> and \<open>3 * 2.2\<close>, and its height is at
  most 0.05 in magnitude.
\<close>

theorem ring_particles_in_annulus:
  assumes "name bodyConfig \<noteq> ''Sun''" and "hasRings bodyConfig" and "radius bodyConfig = 3"
    and "\<forall>k. 0 \<le> rnd k \<and> rnd k < 1"
    and "bodyParticleCount bodyConfig \<le> i" and "i < count"
  shows "case block (targetPos (generate mkColor rnd bodyConfig s)) i of
           (x, y, z) \<Rightarrow> 3 * 1.3 \<le> radialDistance x z \<and> radialDistance x z \<le> 3 * 2.2 \<and> \<bar>y\<bar> \<le> 0.05"
proof -
  from assms(3) have "0 \<le> radius bodyConfig" by simp
  from ring_blocks [OF assms(1,2) this assms(4), of mkColor s] assms(5,6)
  have "inAnnulus (radius bodyConfig) (block (targetPos (generate mkColor rnd bodyConfig s)) i)"
    by blast
  then show ?thesis by (simp add: inAnnulus_def assms(3))
qed

theorem ring_particles_in_annulus_witness:
  "name ringTest \<noteq> ''Sun'' \<and> hasRings ringTest \<and> radius ringTest = 3
   \<and> (\<forall>k. 0 \<le> constDraws (1/2) k \<and> constDraws (1/2) k < 1)
   \<and> bodyParticleCount ringTest \<le> 63999 \<and> 63999 < count
   \<and> (case block (targetPos (generate hexColor (constDraws (1/2)) ringTest initialState)) 63999 of
           (x, y, z) \<Rightarrow> 3 * 1.3 \<le> radialDistance x z \<and> radialDistance x z \<le> 3 * 2.2 \<and> \<bar>y\<bar> \<le> 0.05)"
proof -
  have a: "name ringTest \<noteq> ''Sun''" "hasRings ringTest" "radius ringTest = 3"
    by (simp_all add: ringTest_def)
  have b: "\<forall>k. 0 \<le> constDraws (1/2) k \<and> constDraws (1/2) k < 1" by (simp add: constDraws_def)
  have c: "bodyParticleCount ringTest \<le> 63999" "63999 < count"
    by (simp_all add: particle_counts a count_def)
  from ring_particles_in_annulus [OF a b c, of hexColor initialState] a b c
  show ?thesis by blast
qed




section \<open>Palettes at the end of a generation\<close>

lemma generate_single_eq:
  assumes "name bodyConfig \<noteq> ''Sun''"
  shows "generate mkColor rnd bodyConfig s =
           fold (explosionParticle rnd) [0..<count]
             (singlePlanetLoop rnd bodyConfig
                (fst (fst (newPalettes mkColor bodyConfig (freshBuffers s))))
                (snd (fst (newPalettes mkColor bodyConfig (freshBuffers s))))
                (snd (newPalettes mkColor bodyConfig (freshBuffers s))))"
  using assms by (simp add: generate_def bodyShape_eq singlePlanetMode_def split_def Let_def)

lemma single_palettes_intact:
  assumes "name bodyConfig \<noteq> ''Sun''"
  shows "intact (fst (fst (newPalettes mkColor bodyConfig (freshBuffers s))))
           (map mkColor (colors bodyConfig)) (generate mkColor rnd bodyConfig s)
       \<and> intact (snd (fst (newPalettes mkColor bodyConfig (freshBuffers s))))
           (map mkColor (ringStrings bodyConfig)) (generate mkColor rnd bodyConfig s)"
proof -
  let ?pal = "newPalettes mkColor bodyConfig (freshBuffers s)"
  let ?loop = "singlePlanetLoop rnd bodyConfig (fst (fst ?pal)) (snd (fst ?pal)) (snd ?pal)"
  note pal = newPalettes_effect [of mkColor bodyConfig "freshBuffers s"]
  have "extends (snd ?pal) ?loop" by (rule singlePlanetLoop_extends)
  moreover have "extends ?loop (fold (explosionParticle rnd) [0..<count] ?loop)"
    by (rule explosion_loop_extends)
  ultimately have "extends (snd ?pal) (generate mkColor rnd bodyConfig s)"
    unfolding generate_single_eq [OF assms] by (rule extends_trans)
  then have "intact P vals (snd ?pal) \<Longrightarrow> intact P vals (generate mkColor rnd bodyConfig s)"
    for P vals by (rule intact_extends [rotated])
  with pal show ?thesis by simp
qed

lemma sun_palette_intact:
  assumes "name bodyConfig = ''Sun''"
  shows "intact (fst (newColors (map mkColor (colors bodyConfig)) (freshBuffers s)))
           (map mkColor (colors bodyConfig)) (generate mkColor rnd bodyConfig s)"
proof -
  let ?a = "newColors (map mkColor (colors bodyConfig)) (freshBuffers s)"
  let ?b = "newColor (Color 0.2 0.4 0.8) (snd ?a)"
  let ?c = "newColor (Color 0.5 0.5 0.5) (snd ?b)"
  let ?loops = "solarSystemLoops mkColor rnd (fst ?a) (fst ?b) (fst ?c) (snd ?c)"
  have shape: "bodyShape mkColor rnd bodyConfig s = ?loops"
    using assms by (simp add: bodyShape_eq solarSystemMode_def split_def Let_def)
  have 1: "extends (snd ?a) (snd ?b)" by (simp add: extends_def newColor_def)
  have 2: "extends (snd ?b) (snd ?c)" by (simp add: extends_def newColor_def)
  have 3: "extends (snd ?c) ?loops" by (rule solarSystemLoops_extends)
  have 4: "extends ?loops (fold (explosionParticle rnd) [0..<count] ?loops)"
    by (rule explosion_loop_extends)
  have "extends (snd ?a) (generate mkColor rnd bodyConfig s)"
    unfolding generate_def shape
    by (rule extends_trans [OF extends_trans [OF extends_trans [OF 1 2] 3] 4])
  with newColors_intact [of "map mkColor (colors bodyConfig)" "freshBuffers s"]
  show ?thesis by (rule intact_extends)
qed

text \<open>
  The palettes of the mini planets of the solar system are built inside the loop over the
  planets; they are intact when the loop of their planet ends, and every later step extends
  that state.
\<close>

lemma planet_palettes_intact:
  "intact (fst (fst (newPalettes mkColor (planetList ! p) (snd cs))))
     (map mkColor (colors (planetList ! p)))
     (snd (planetParticles mkColor rnd planetList radii particlesPerPlanet p cs))
   \<and> intact (snd (fst (newPalettes mkColor (planetList ! p) (snd cs))))
     (map mkColor (ringStrings (planetList ! p)))
     (snd (planetParticles mkColor rnd planetList radii particlesPerPlanet p cs))"
proof (cases cs)
  case (Pair currentIdx s)
  let ?planet = "planetList ! p"
  let ?pal = "newPalettes mkColor ?planet s"
  let ?loop = "forUntilFull (planetParticle rnd ?planet (fst (fst ?pal)) (snd (fst ?pal))
                  (radii ! (p mod length radii) * cos (js_rem (real p * 2.5) (pi * 2)))
                  (radii ! (p mod length radii) * sin (js_rem (real p * 2.5) (pi * 2)))
                  particlesPerPlanet)
                [0..<particlesPerPlanet] (currentIdx, snd ?pal)"
  have "extends (snd (currentIdx, snd ?pal)) (snd ?loop)"
    by (rule forUntilFull_extends) (rule planetParticle_extends)
  then have e: "extends (snd ?pal) (snd ?loop)" by simp
  have eq: "planetParticles mkColor rnd planetList radii particlesPerPlanet p (currentIdx, s) = ?loop"
    unfolding planetParticles_def by (simp add: Let_def split_def)
  from e have "intact P vals (snd ?pal) \<Longrightarrow> intact P vals (snd ?loop)" for P vals
    by (rule intact_extends [rotated])
  with newPalettes_effect [of mkColor ?planet s] show ?thesis
    unfolding Pair eq snd_conv by simp
qed

text \<open>
  Claim C10. The colour objects of the palettes that a generation builds from the
  descriptor's colour strings hold, when the generation ends, the values they were built
  with: the body palette and the ring palette of a single body, and the palette of the Sun.
  Every value the generator modifies in place (the glow of the Sun's surface, the darkening
  in the gap of the ring, the blend of two biomes) is a clone made by \<open>getSafeColor\<close>, and
  the fading of the orbit lines works on a clone of the orbit colour; no step changes an
  object that existed before it.
\<close>

theorem palettes_keep_their_values:
  "(name bodyConfig \<noteq> ''Sun'' \<longrightarrow>
      map (cells (generate mkColor rnd bodyConfig s))
        (fst (fst (newPalettes mkColor bodyConfig (freshBuffers s))))
        = map mkColor (colors bodyConfig)
    \<and> map (cells (generate mkColor rnd bodyConfig s))
        (snd (fst (newPalettes mkColor bodyConfig (freshBuffers s))))
        = map mkColor (ringStrings bodyConfig))
   \<and> (name bodyConfig = ''Sun'' \<longrightarrow>
      map (cells (generate mkColor rnd bodyConfig s))
        (fst (newColors (map mkColor (colors bodyConfig)) (freshBuffers s)))
        = map mkColor (colors bodyConfig))
   \<and> extends s (generate mkColor rnd bodyConfig s)"
proof (intro conjI impI)
  assume single: "name bodyConfig \<noteq> ''Sun''"
  from single_palettes_intact [OF single, of mkColor s rnd]
  show "map (cells (generate mkColor rnd bodyConfig s))
        (fst (fst (newPalettes mkColor bodyConfig (freshBuffers s))))
        = map mkColor (colors bodyConfig)"
    and "map (cells (generate mkColor rnd bodyConfig s))
        (snd (fst (newPalettes mkColor bodyConfig (freshBuffers s))))
        = map mkColor (ringStrings bodyConfig)"
    by (simp_all add: intact_values)
next
  assume sun: "name bodyConfig = ''Sun''"
  from sun_palette_intact [OF sun, of mkColor s rnd]
  show "map (cells (generate mkColor rnd bodyConfig s))
        (fst (newColors (map mkColor (colors bodyConfig)) (freshBuffers s)))
        = map mkColor (colors bodyConfig)"
    by (rule intact_values)
next
  show "extends s (generate mkColor rnd bodyConfig s)" by (rule generate_extends)
qed

theorem palettes_keep_their_values_witness:
  "name ringTest \<noteq> ''Sun''
   \<and> map (cells (generate hexColor (constDraws (1/2)) ringTest initialState)) [0] = [Color 1 1 1]
   \<and> map (cells (generate hexColor (constDraws (1/2)) ringTest initialState)) [1] = [Color 1 0 0]
   \<and> name (hd CELESTIAL_BODIES) = ''Sun''
   \<and> map (cells (generate hexColor (constDraws (1/2)) (hd CELESTIAL_BODIES) initialState)) [0, 1, 2, 3]
       = [Color 1 (247/255) 0, Color 1 (140/255) 0, Color 1 (69/255) 0, Color (139/255) 0 0]"
proof -
  have single: "name ringTest \<noteq> ''Sun''" by (simp add: ringTest_def)
  have sun: "name (hd CELESTIAL_BODIES) = ''Sun''" by (simp add: CELESTIAL_BODIES_def)
  have pal: "fst (newPalettes hexColor ringTest (freshBuffers initialState)) = ([0], [1])"
    by (simp add: newPalettes_def newColor_def freshBuffers_def initialState_def ringTest_def)
  have vals: "map hexColor (colors ringTest) = [Color 1 1 1]"
    "map hexColor (ringStrings ringTest) = [Color 1 0 0]"
    by (simp_all add: ringTest_def ringStrings_def hexColor_def hexDigit_def)
  have sunPal: "fst (newColors (map hexColor (colors (hd CELESTIAL_BODIES))) (freshBuffers initialState))
                  = [0, 1, 2, 3]"
    by (simp add: CELESTIAL_BODIES_def newColor_def freshBuffers_def initialState_def)
  have sunVals: "map hexColor (colors (hd CELESTIAL_BODIES))
                  = [Color 1 (247/255) 0, Color 1 (140/255) 0, Color 1 (69/255) 0, Color (139/255) 0 0]"
    by (simp add: CELESTIAL_BODIES_def hexColor_def hexDigit_def)
  from palettes_keep_their_values [of ringTest hexColor "constDraws (1/2)" initialState] single
  have A: "map (cells (generate hexColor (constDraws (1/2)) ringTest initialState))
             (fst (fst (newPalettes hexColor ringTest (freshBuffers initialState))))
             = map hexColor (colors ringTest)"
    and B: "map (cells (generate hexColor (constDraws (1/2)) ringTest initialState))
             (snd (fst (newPalettes hexColor ringTest (freshBuffers initialState))))
             = map hexColor (ringStrings ringTest)"
    by blast+
  from palettes_keep_their_values [of "hd CELESTIAL_BODIES" hexColor "constDraws (1/2)" initialState] sun
  have C: "map (cells (generate hexColor (constDraws (1/2)) (hd CELESTIAL_BODIES) initialState))
             (fst (newColors (map hexColor (colors (hd CELESTIAL_BODIES))) (freshBuffers initialState)))
             = map hexColor (colors (hd CELESTIAL_BODIES))"
    by blast
  note A' = A [unfolded pal fst_conv vals]
  note B' = B [unfolded pal fst_conv snd_conv vals]
  note C' = C [unfolded sunPal]
  note C'' = C' [unfolded sunVals]
  from single sun A' B' C'' show ?thesis by (intro conjI)
qed

section \<open>The origin cloud and the seeds across generations\<close>

lemma fold_invariant_eq_snd:
  assumes "\<And>i cs. h (snd (f i cs)) = h (snd cs)"
  shows "h (snd (fold f xs cs)) = h (snd cs)"
  by (induction xs arbitrary: cs) (simp_all add: assms)

lemma forUntilFull_invariant_eq:
  assumes "\<And>k cs. h (snd (body k cs)) = h (snd cs)"
  shows "h (snd (forUntilFull body ks cs)) = h (snd cs)"
  by (induction ks arbitrary: cs) (simp_all add: assms)

lemma singlePlanetMode_origin:
  "originBuffers (singlePlanetMode mkColor rnd bodyConfig s) = originBuffers s"
proof -
  let ?pal = "newPalettes mkColor bodyConfig s"
  have "originBuffers (singlePlanetLoop rnd bodyConfig (fst (fst ?pal)) (snd (fst ?pal)) (snd ?pal))
          = originBuffers (snd ?pal)"
    unfolding singlePlanetLoop_def
    by (rule fold_invariant_eq) (simp add: originBuffers_def singlePlanetParticle_origin)
  also have "\<dots> = originBuffers s"
    using newPalettes_effect [of mkColor bodyConfig s] by (simp add: originBuffers_def)
  finally show ?thesis by (simp add: singlePlanetMode_def split_def Let_def)
qed

lemma sunParticle_origin:
  "originBuffers (snd (sunParticle rnd sunColors i cs)) = originBuffers (snd cs)"
  by (cases cs) (simp add: sunParticle_def prim_defs Let_def originBuffers_def)

lemma orbitParticle_origin:
  "originBuffers (snd (orbitParticle rnd orbitColor rr particlesInRing j cs)) = originBuffers (snd cs)"
  by (cases cs) (simp add: orbitParticle_def prim_defs Let_def originBuffers_def)

lemma orbitRing_origin:
  "originBuffers (snd (orbitRing rnd orbitColor radii orbitCount rIdx cs)) = originBuffers (snd cs)"
  unfolding orbitRing_def Let_def by (rule fold_invariant_eq_snd) (rule orbitParticle_origin)

lemma asteroidParticle_origin:
  "originBuffers (snd (asteroidParticle rnd asteroidColor i cs)) = originBuffers (snd cs)"
  by (cases cs) (simp add: asteroidParticle_def prim_defs Let_def originBuffers_def)

lemma planetParticle_origin:
  "originBuffers (snd (planetParticle rnd planet pColors pRingColors cx cz particlesPerPlanet k cs))
     = originBuffers (snd cs)"
  by (cases cs) (simp add: planetParticle_def prim_defs Let_def originBuffers_def)

lemma planetParticles_origin:
  "originBuffers (snd (planetParticles mkColor rnd planetList radii particlesPerPlanet p cs))
     = originBuffers (snd cs)"
proof (cases cs)
  case (Pair currentIdx s)
  let ?planet = "planetList ! p"
  let ?pal = "newPalettes mkColor ?planet s"
  let ?loop = "forUntilFull (planetParticle rnd ?planet (fst (fst ?pal)) (snd (fst ?pal))
                  (radii ! (p mod length radii) * cos (js_rem (real p * 2.5) (pi * 2)))
                  (radii ! (p mod length radii) * sin (js_rem (real p * 2.5) (pi * 2)))
                  particlesPerPlanet)
                [0..<particlesPerPlanet] (currentIdx, snd ?pal)"
  have eq: "planetParticles mkColor rnd planetList radii particlesPerPlanet p (currentIdx, s) = ?loop"
    unfolding planetParticles_def by (simp add: Let_def split_def)
  have "originBuffers (snd ?loop) = originBuffers (snd (currentIdx, snd ?pal))"
    by (rule forUntilFull_invariant_eq) (rule planetParticle_origin)
  also have "\<dots> = originBuffers s"
    using newPalettes_effect [of mkColor ?planet s] by (simp add: originBuffers_def)
  finally show ?thesis unfolding Pair eq snd_conv .
qed

lemma solarSystemLoops_origin:
  "originBuffers (solarSystemLoops mkColor rnd sunColors orbitColor asteroidColor s) = originBuffers s"
proof -
  let ?radii = "[6, 8, 10, 11, 14, 20, 26, 32, 38, 44] :: real list"
  let ?planetList = "filter (\<lambda>b. name b \<noteq> ''Sun'') CELESTIAL_BODIES"
  let ?c0 = "(0::nat, s)"
  let ?c1 = "fold (sunParticle rnd sunColors) [0..<20000] ?c0"
  let ?c2 = "fold (orbitRing rnd orbitColor ?radii 9000) [0..<length ?radii] ?c1"
  let ?c3 = "fold (asteroidParticle rnd asteroidColor) [0..<8000] ?c2"
  let ?ppp = "nat \<lfloor>real (count - fst ?c3) / real (length ?planetList)\<rfloor>"
  let ?c4 = "fold (planetParticles mkColor rnd ?planetList ?radii ?ppp) [0..<length ?planetList] ?c3"
  let ?end = "fold (\<lambda>currentIdx. setTarget currentIdx 0 0 0) [fst ?c4..<count] (snd ?c4)"
  have "originBuffers ?end = originBuffers (snd ?c4)"
    by (rule fold_invariant_eq) (simp add: originBuffers_def setTarget_def)
  also have "\<dots> = originBuffers (snd ?c3)"
    by (rule fold_invariant_eq_snd) (rule planetParticles_origin)
  also have "\<dots> = originBuffers (snd ?c2)"
    by (rule fold_invariant_eq_snd) (rule asteroidParticle_origin)
  also have "\<dots> = originBuffers (snd ?c1)"
    by (rule fold_invariant_eq_snd) (rule orbitRing_origin)
  also have "\<dots> = originBuffers (snd ?c0)"
    by (rule fold_invariant_eq_snd) (rule sunParticle_origin)
  finally have "originBuffers ?end = originBuffers s" by (simp only: snd_conv)
  moreover have "solarSystemLoops mkColor rnd sunColors orbitColor asteroidColor s = ?end"
    by (simp only: solarSystemLoops_def Let_def)
  ultimately show ?thesis by (simp only:)
qed

lemma solarSystemMode_origin:
  "originBuffers (solarSystemMode mkColor rnd bodyConfig s) = originBuffers s"
proof -
  let ?a = "newColors (map mkColor (colors bodyConfig)) s"
  let ?b = "newColor (Color 0.2 0.4 0.8) (snd ?a)"
  let ?c = "newColor (Color 0.5 0.5 0.5) (snd ?b)"
  have "originBuffers (solarSystemLoops mkColor rnd (fst ?a) (fst ?b) (fst ?c) (snd ?c))
          = originBuffers (snd ?c)"
    by (rule solarSystemLoops_origin)
  also have "\<dots> = originBuffers s"
    using newColors_buffers [of "map mkColor (colors bodyConfig)" s]
    by (simp add: originBuffers_def newColor_def)
  finally show ?thesis by (simp add: solarSystemMode_def split_def Let_def)
qed

lemma bodyShape_origin:
  "length (initPos (bodyShape mkColor rnd bodyConfig s)) = count * 3
   \<and> length (rands (bodyShape mkColor rnd bodyConfig s)) = count * 3"
proof -
  have "originBuffers (bodyShape mkColor rnd bodyConfig s) = originBuffers (freshBuffers s)"
    by (simp add: bodyShape_eq solarSystemMode_origin singlePlanetMode_origin)
  then show ?thesis by (simp add: originBuffers_def freshBuffers_def)
qed

lemma generate_origin:
  "draws (generate mkColor rnd bodyConfig s) = draws (bodyShape mkColor rnd bodyConfig s) + 6 * count
   \<and> (\<forall>i<count. block (initPos (generate mkColor rnd bodyConfig s)) i
                     = originOf rnd (draws (bodyShape mkColor rnd bodyConfig s) + 6 * i)
                 \<and> block (rands (generate mkColor rnd bodyConfig s)) i
                     = seedOf rnd (draws (bodyShape mkColor rnd bodyConfig s) + 6 * i))"
  using explosion_loop [of "bodyShape mkColor rnd bodyConfig s" rnd]
    bodyShape_origin [of mkColor rnd bodyConfig s]
  by (simp add: generate_def)

lemma fold_counter:
  assumes "\<And>i s. h (f i s) = h s + (k::nat)"
  shows "h (fold f xs s) = h s + k * length xs"
  by (induction xs arbitrary: s) (simp_all add: assms)

lemma bodyParticle_draws:
  "name bodyConfig \<noteq> ''Earth'' \<Longrightarrow>
   draws (bodyParticle rnd bodyConfig bodyColors i s) = draws s + 2"
  by (simp add: bodyParticle_def prim_defs Let_def)

lemma bodyShape_draws:
  assumes "name bodyConfig \<notin> {''Sun'', ''Earth''}" and "\<not> hasRings bodyConfig"
  shows "draws (bodyShape mkColor rnd bodyConfig s) = draws s + 2 * count"
proof -
  let ?pal = "newPalettes mkColor bodyConfig (freshBuffers s)"
  let ?step = "singlePlanetParticle rnd bodyConfig (fst (fst ?pal)) (snd (fst ?pal))"
  have step: "draws (?step i s') = draws s' + 2" for i and s' :: gen_state
    using assms by (simp add: singlePlanetParticle_def bodyParticle_draws)
  have "draws (fold ?step [0..<count] (snd ?pal)) = draws (snd ?pal) + 2 * length [0..<count]"
    using step by (rule fold_counter [where h = draws and f = ?step and k = 2])
  moreover have "draws (snd ?pal) = draws s"
    using newPalettes_effect [of mkColor bodyConfig "freshBuffers s"] by (simp add: freshBuffers_def)
  moreover have "bodyShape mkColor rnd bodyConfig s = fold ?step [0..<count] (snd ?pal)"
    using assms(1) by (simp add: bodyShape_eq singlePlanetMode_def singlePlanetLoop_def split_def Let_def)
  ultimately show ?thesis by simp
qed

text \<open>
  Claim C2, as the source has it. The origin cloud and the seeds are made by one procedure
  for every descriptor, but they are made anew in every generation, and the generator runs
  whenever the descriptor changes: the origin position and the seed of the particle \<open>i\<close>
  come from the six draws that start at the draw number \<open>d + 6 * i\<close>, where \<open>d\<close> counts the
  draws made when the target cloud of this generation is complete, so none of them is a draw
  of an earlier generation. The memo returns the old arrays only for an unchanged
  descriptor.
\<close>

theorem origin_cloud_regenerated:
  assumes "\<forall>k. 0 \<le> rnd k \<and> rnd k < 1" and "i < count"
  shows "block (initPos (generate mkColor rnd bodyConfig s)) i
           = originOf rnd (draws (bodyShape mkColor rnd bodyConfig s) + 6 * i)
       \<and> block (rands (generate mkColor rnd bodyConfig s)) i
           = seedOf rnd (draws (bodyShape mkColor rnd bodyConfig s) + 6 * i)
       \<and> draws s \<le> draws (bodyShape mkColor rnd bodyConfig s)
       \<and> (deps \<noteq> bodyConfig \<longrightarrow>
            useMemo mkColor rnd bodyConfig (Some (deps, value), s)
              = (Some (bodyConfig, particleSet (generate mkColor rnd bodyConfig s)),
                 generate mkColor rnd bodyConfig s))
       \<and> useMemo mkColor rnd bodyConfig (Some (bodyConfig, value), s) = (Some (bodyConfig, value), s)
       \<and> initialPositions (particleSet (generate mkColor rnd bodyConfig s))
            = initPos (generate mkColor rnd bodyConfig s)
       \<and> randoms (particleSet (generate mkColor rnd bodyConfig s))
            = rands (generate mkColor rnd bodyConfig s)"
proof -
  from generate_origin [of mkColor rnd bodyConfig s] assms(2)
  have "block (initPos (generate mkColor rnd bodyConfig s)) i
           = originOf rnd (draws (bodyShape mkColor rnd bodyConfig s) + 6 * i)"
    and "block (rands (generate mkColor rnd bodyConfig s)) i
           = seedOf rnd (draws (bodyShape mkColor rnd bodyConfig s) + 6 * i)"
    by simp_all
  moreover have "draws s \<le> draws (bodyShape mkColor rnd bodyConfig s)"
    using bodyShape_extends [of s mkColor rnd bodyConfig] by (simp add: extends_def)
  ultimately show ?thesis by (simp add: useMemo_def particleSet_def Let_def)
qed

lemma mercury_venus:
  "name (CELESTIAL_BODIES ! 1) \<notin> {''Sun'', ''Earth''}" "\<not> hasRings (CELESTIAL_BODIES ! 1)"
  "name (CELESTIAL_BODIES ! 2) \<notin> {''Sun'', ''Earth''}" "\<not> hasRings (CELESTIAL_BODIES ! 2)"
  "CELESTIAL_BODIES ! 1 \<noteq> CELESTIAL_BODIES ! 2"
  by (simp_all add: CELESTIAL_BODIES_def)

lemma afterMercury_draws:
  "draws (bodyShape hexColor rampDraws (CELESTIAL_BODIES ! 1) initialState) = 128000"
  "draws afterMercury = 512000"
proof -
  show a: "draws (bodyShape hexColor rampDraws (CELESTIAL_BODIES ! 1) initialState) = 128000"
    using bodyShape_draws [OF mercury_venus(1,2), of hexColor rampDraws initialState]
    by (simp add: initialState_def count_def)
  show "draws afterMercury = 512000"
    using generate_origin [of hexColor rampDraws "CELESTIAL_BODIES ! 1" initialState]
    unfolding afterMercury_def a by (simp add: count_def)
qed

lemma afterVenus_draws:
  "draws (bodyShape hexColor rampDraws (CELESTIAL_BODIES ! 2) afterMercury) = 640000"
  using bodyShape_draws [OF mercury_venus(3,4), of hexColor rampDraws afterMercury]
  by (simp add: afterMercury_draws count_def)

lemma first_blocks:
  "block (rands afterMercury) 0 = (0, 0, 0)" "block (rands afterVenus) 0 = (1/2, 1/2, 1/2)"
  "block (initPos afterMercury) 0 = (0, 0, 0)" "block (initPos afterVenus) 0 = (- 50 * cbrt (1/2), 0, 0)"
proof -
  have c: "0 < count" by (simp add: count_def)
  from generate_origin [of hexColor rampDraws "CELESTIAL_BODIES ! 1" initialState] c
  have m: "block (initPos afterMercury) 0 = originOf rampDraws 128000"
    "block (rands afterMercury) 0 = seedOf rampDraws 128000"
    unfolding afterMercury_def [symmetric] afterMercury_draws by simp_all
  from generate_origin [of hexColor rampDraws "CELESTIAL_BODIES ! 2" afterMercury] c
  have v: "block (initPos afterVenus) 0 = originOf rampDraws 640000"
    "block (rands afterVenus) 0 = seedOf rampDraws 640000"
    unfolding afterVenus_def [symmetric] afterVenus_draws by simp_all
  show "block (rands afterMercury) 0 = (0, 0, 0)"
    unfolding m by (simp add: seedOf_def rampDraws_def)
  show "block (rands afterVenus) 0 = (1/2, 1/2, 1/2)"
    unfolding v by (simp add: seedOf_def rampDraws_def)
  show "block (initPos afterMercury) 0 = (0, 0, 0)"
    unfolding m by (simp add: originOf_def rampDraws_def cbrt_def)
  show "block (initPos afterVenus) 0 = (- 50 * cbrt (1/2), 0, 0)"
    unfolding v by (simp add: originOf_def rampDraws_def)
qed

theorem origin_cloud_regenerated_witness:
  "(\<forall>k. 0 \<le> rampDraws k \<and> rampDraws k < 1)
   \<and> (0::nat) < count \<and> CELESTIAL_BODIES ! 1 \<noteq> CELESTIAL_BODIES ! 2
   \<and> block (initPos afterVenus) 0 = originOf rampDraws 640000
   \<and> block (rands afterVenus) 0 = seedOf rampDraws 640000
   \<and> draws afterMercury \<le> 640000
   \<and> useMemo hexColor rampDraws (CELESTIAL_BODIES ! 2)
        (Some (CELESTIAL_BODIES ! 1, particleSet afterMercury), afterMercury)
        = (Some (CELESTIAL_BODIES ! 2, particleSet afterVenus), afterVenus)
   \<and> useMemo hexColor rampDraws (CELESTIAL_BODIES ! 2)
        (Some (CELESTIAL_BODIES ! 2, particleSet afterVenus), afterVenus)
        = (Some (CELESTIAL_BODIES ! 2, particleSet afterVenus), afterVenus)"
proof -
  have c: "(0::nat) < count" by (simp add: count_def)
  have d: "\<forall>k. 0 \<le> rampDraws k \<and> rampDraws k < 1" by (simp add: rampDraws_def)
  from origin_cloud_regenerated [OF d c, of hexColor "CELESTIAL_BODIES ! 2" afterMercury
      "CELESTIAL_BODIES ! 1" "particleSet afterMercury"]
    origin_cloud_regenerated [OF d c, of hexColor "CELESTIAL_BODIES ! 2" afterVenus
      "CELESTIAL_BODIES ! 1" "particleSet afterVenus"]
    c d mercury_venus(5)
  show ?thesis
    unfolding afterVenus_def [symmetric] afterVenus_draws by simp
qed

text \<open>
  A change of the descriptor changes both arrays: on draws that are 0 up to the draw number
  512000 and 1/2 from there on, the generation for Mercury from the initial state and the
  generation for Venus that follows it give the first particle different seeds and
  different origin positions.
\<close>

theorem seeds_change_with_descriptor:
  "useMemo hexColor rampDraws (CELESTIAL_BODIES ! 1) (None, initialState)
     = (Some (CELESTIAL_BODIES ! 1, particleSet afterMercury), afterMercury)
   \<and> useMemo hexColor rampDraws (CELESTIAL_BODIES ! 2)
        (Some (CELESTIAL_BODIES ! 1, particleSet afterMercury), afterMercury)
     = (Some (CELESTIAL_BODIES ! 2, particleSet afterVenus), afterVenus)
   \<and> block (randoms (particleSet afterMercury)) 0 = (0, 0, 0)
   \<and> block (randoms (particleSet afterVenus)) 0 = (1/2, 1/2, 1/2)
   \<and> randoms (particleSet afterMercury) \<noteq> randoms (particleSet afterVenus)
   \<and> block (initialPositions (particleSet afterMercury)) 0 = (0, 0, 0)
   \<and> block (initialPositions (particleSet afterVenus)) 0 = (- 50 * cbrt (1/2), 0, 0)
   \<and> initialPositions (particleSet afterMercury) \<noteq> initialPositions (particleSet afterVenus)"
proof -
  have ne: "cbrt (1/2) \<noteq> 0" by (simp add: cbrt_def)
  have r: "rands afterMercury \<noteq> rands afterVenus"
  proof
    assume "rands afterMercury = rands afterVenus"
    then have "block (rands afterMercury) 0 = block (rands afterVenus) 0" by simp
    then show False unfolding first_blocks by simp
  qed
  have p: "initPos afterMercury \<noteq> initPos afterVenus"
  proof
    assume "initPos afterMercury = initPos afterVenus"
    then have "block (initPos afterMercury) 0 = block (initPos afterVenus) 0" by simp
    then show False unfolding first_blocks using ne by simp
  qed
  have m1: "useMemo hexColor rampDraws (CELESTIAL_BODIES ! 1) (None, initialState)
     = (Some (CELESTIAL_BODIES ! 1, particleSet afterMercury), afterMercury)"
    by (simp add: useMemo_def Let_def afterMercury_def)
  have m2: "useMemo hexColor rampDraws (CELESTIAL_BODIES ! 2)
        (Some (CELESTIAL_BODIES ! 1, particleSet afterMercury), afterMercury)
     = (Some (CELESTIAL_BODIES ! 2, particleSet afterVenus), afterVenus)"
    using mercury_venus(5) by (simp add: useMemo_def Let_def afterVenus_def)
  show ?thesis
    using m1 m2 r p first_blocks by (simp add: particleSet_def)
qed

end
